theory Spec2Isabelle
  imports Main "HOL-Library.Word"
begin

section \<open>Data model of package k8s\<close>

text \<open>
  The structs of the shared types file. Go's \<open>int\<close> fields are counts of list elements and
  are modelled as \<open>int\<close>; \<open>int32\<close> restart counters are 32-bit words, whose addition wraps
  as Go's does. A Go slice is a list (a nil slice and an empty slice are both \<open>[]\<close>).
  \<open>ClusterStatus\<close> embeds \<open>ClusterInfo\<close>, so it is the record extension: every field
  of \<open>ClusterInfo\<close> is a field of \<open>ClusterStatus\<close>, as Go's promoted fields are.
\<close>

record ClusterInfo =
  Name :: string
  Server :: string
  Context :: string
  User :: string
  Namespace :: string
  IsCurrent :: bool
  IsReachable :: bool

record NodeInfo =
  NodeName :: string
  NodeStatus :: string
  Roles :: "string list"
  Age :: string

record PodInfo =
  PodName :: string
  PodNamespace :: string
  PodStatus :: string
  Reason :: string
  Restarts :: "32 word"

record ClusterStatus = ClusterInfo +
  Version :: string
  NodeCount :: int
  HealthyNodes :: int
  Nodes :: "NodeInfo list"
  NamespaceList :: "string list"
  APIServerURL :: string
  Error :: string
  PodCount :: int
  HealthyPods :: int
  UnhealthyPods :: "PodInfo list"

text \<open>
  \<open>CachedClusterStatus\<close>: the status pointer may be nil, hence the option; \<open>ExpiresAt\<close> is
  an instant, in nanoseconds on the process's monotonic clock.
\<close>

record CachedClusterStatus =
  Status :: "ClusterStatus option"
  ExpiresAt :: int

subsection \<open>The Kubernetes API objects, by the fields the collectors read\<close>

text \<open>
  \<open>corev1.PodPhase\<close>, \<open>corev1.NodeConditionType\<close> and \<open>corev1.ConditionStatus\<close> are string
  types of the Kubernetes API; the constants below are the API's values. A container state
  holds at most a waiting or a terminated record, of which the collectors read the reason.
\<close>

definition PodPending :: string where "PodPending = ''Pending''"
definition PodRunning :: string where "PodRunning = ''Running''"
definition PodSucceeded :: string where "PodSucceeded = ''Succeeded''"
definition PodFailed :: string where "PodFailed = ''Failed''"
definition NodeReady :: string where "NodeReady = ''Ready''"
definition ConditionTrue :: string where "ConditionTrue = ''True''"

record ContainerStatus =
  Ready :: bool
  RestartCount :: "32 word"
  Waiting :: "string option"
  Terminated :: "string option"

record Pod =
  ObjName :: string
  ObjNamespace :: string
  Phase :: string
  StatusReason :: string
  ContainerStatuses :: "ContainerStatus list"

record NodeCondition =
  CondType :: string
  CondStatus :: string

text \<open>
  Of a node the collector reads the name, the label keys (a Go map, here the keys in the
  order the iteration yields them), the condition list, and the creation time, of which
  only the rendered age \<open>time.Since(t).Round(time.Hour).String()\<close> is kept.
\<close>

record Node =
  NodeObjName :: string
  Labels :: "string list"
  RenderedAge :: string
  Conditions :: "NodeCondition list"

section \<open>Collectors (collectors.go)\<close>

subsection \<open>Pod health\<close>

text \<open>The loop of \<open>isPodHealthy\<close> over the container statuses: false at the first one not ready.\<close>

fun containersReady :: "ContainerStatus list \<Rightarrow> bool" where
  "containersReady [] = True"
| "containersReady (cs # rest) = (if \<not> Ready cs then False else containersReady rest)"

definition isPodHealthy :: "Pod \<Rightarrow> bool" where
  "isPodHealthy pod =
     (if Phase pod \<noteq> PodRunning \<and> Phase pod \<noteq> PodSucceeded then False
      else if \<not> containersReady (ContainerStatuses pod) then False
      else Phase pod = PodRunning)"

fun sumRestarts :: "32 word \<Rightarrow> ContainerStatus list \<Rightarrow> 32 word" where
  "sumRestarts acc [] = acc"
| "sumRestarts acc (cs # rest) = sumRestarts (acc + RestartCount cs) rest"

definition podReason :: "Pod \<Rightarrow> string" where
  "podReason pod =
     (if StatusReason pod \<noteq> [] then StatusReason pod
      else (case ContainerStatuses pod of
              [] \<Rightarrow> []
            | cs # _ \<Rightarrow>
                (case Waiting cs of
                   Some r \<Rightarrow> r
                 | None \<Rightarrow>
                     (case Terminated cs of
                        Some r \<Rightarrow> r
                      | None \<Rightarrow> if \<not> Ready cs then ''ContainerNotReady'' else []))))"

definition extractPodInfo :: "Pod \<Rightarrow> PodInfo" where
  "extractPodInfo pod =
     \<lparr>PodName = ObjName pod, PodNamespace = ObjNamespace pod, PodStatus = Phase pod,
      Reason = podReason pod, Restarts = sumRestarts 0 (ContainerStatuses pod)\<rparr>"

text \<open>
  The loop of \<open>collectPodHealth\<close>, with its two accumulators: the healthy counter and the
  slice of unhealthy pods, appended to in iteration order.
\<close>

fun podLoop :: "int \<Rightarrow> PodInfo list \<Rightarrow> Pod list \<Rightarrow> int \<times> PodInfo list" where
  "podLoop healthyPods unhealthyPods [] = (healthyPods, unhealthyPods)"
| "podLoop healthyPods unhealthyPods (pod # rest) =
     (if isPodHealthy pod then podLoop (healthyPods + 1) unhealthyPods rest
      else podLoop healthyPods (unhealthyPods @ [extractPodInfo pod]) rest)"

text \<open>The part of \<open>collectPodHealth\<close> after a successful list call.\<close>

definition classifyPods :: "Pod list \<Rightarrow> int \<times> int \<times> PodInfo list" where
  "classifyPods items =
     (let totalPods = int (length items);
          (healthyPods, unhealthyPods) = podLoop 0 [] items
      in (totalPods, healthyPods, unhealthyPods))"

subsection \<open>Node readiness and roles\<close>

definition HasPrefix :: "string \<Rightarrow> string \<Rightarrow> bool" where
  "HasPrefix s pre = (take (length pre) s = pre)"

definition TrimPrefix :: "string \<Rightarrow> string \<Rightarrow> string" where
  "TrimPrefix s pre = (if HasPrefix s pre then drop (length pre) s else s)"

definition roleLabelPrefix :: string where
  "roleLabelPrefix = ''node-role.kubernetes.io/''"

fun rolesLoop :: "string list \<Rightarrow> string list \<Rightarrow> string list" where
  "rolesLoop roles [] = roles"
| "rolesLoop roles (label # rest) =
     (if HasPrefix label roleLabelPrefix then
        (let role = TrimPrefix label roleLabelPrefix
         in if role \<noteq> [] then rolesLoop (roles @ [role]) rest else rolesLoop roles rest)
      else rolesLoop roles rest)"

definition getNodeRoles :: "Node \<Rightarrow> string list" where
  "getNodeRoles node =
     (let roles = rolesLoop [] (Labels node)
      in if length roles = 0 then roles @ [''worker''] else roles)"

text \<open>
  The inner loop of \<open>collectNodeInfo\<close>: the first condition of type Ready decides, and the
  loop breaks there. The result is the status string and whether the healthy counter is
  incremented.
\<close>

fun conditionLoop :: "NodeCondition list \<Rightarrow> string \<times> bool" where
  "conditionLoop [] = (''Unknown'', False)"
| "conditionLoop (condition # rest) =
     (if CondType condition = NodeReady then
        (if CondStatus condition = ConditionTrue then (''Ready'', True) else (''NotReady'', False))
      else conditionLoop rest)"

fun nodeLoop :: "NodeInfo list \<Rightarrow> int \<Rightarrow> Node list \<Rightarrow> NodeInfo list \<times> int" where
  "nodeLoop nodeInfos healthyCount [] = (nodeInfos, healthyCount)"
| "nodeLoop nodeInfos healthyCount (node # rest) =
     (let (nodeStatus, healthy) = conditionLoop (Conditions node);
          nodeInfo = \<lparr>NodeName = NodeObjName node, NodeStatus = nodeStatus,
                      Roles = getNodeRoles node, Age = RenderedAge node\<rparr>
      in nodeLoop (nodeInfos @ [nodeInfo]) (if healthy then healthyCount + 1 else healthyCount) rest)"

subsection \<open>The cluster behind a client, and the calls made to it\<close>

text \<open>
  What one cluster answers to each call of a probe: an error message (\<open>Inl\<close>) or the data.
  \<open>ClientConfig\<close> is the outcome of resolving the context into a REST configuration (its
  host on success), \<open>NewForConfig\<close> the error of building the clientset, if any. A call that
  runs into its deadline answers with an error like any other failure.
\<close>

record Backend =
  ClientConfig :: "string + string"
  NewForConfig :: "string option"
  ServerVersion :: "string + string"
  ListNodes :: "string + Node list"
  ListNamespaces :: "string + string list"
  ListPods :: "string + Pod list"

record Clientset =
  BoundContext :: string
  Api :: Backend

text \<open>
  The trace of a probe: which context's cluster was called, and for the calls that take a
  Go context, the deadline of the context they were handed (\<open>None\<close>: no deadline).
  \<open>ServerVersion\<close> takes no context at all.
\<close>

datatype event =
    CallCreateClientset string
  | CallServerVersion string
  | CallListNodes string "int option"
  | CallListNamespaces string "int option"
  | CallListPods string "int option"

text \<open>
  A Go context is modelled by its deadline. \<open>context.WithTimeout(parent, d)\<close> at instant
  \<open>now\<close> has the earlier of the parent's deadline and \<open>now + d\<close>. Durations are in
  nanoseconds.
\<close>

definition second :: int where
  "second = 1000000000"

definition DefaultAPITimeout :: int where
  "DefaultAPITimeout = 30 * second"

definition DiscoveryTimeout :: int where
  "DiscoveryTimeout = 10 * second"

definition WithTimeout :: "int option \<Rightarrow> int \<Rightarrow> int \<Rightarrow> int option" where
  "WithTimeout parent now d =
     (case parent of None \<Rightarrow> Some (now + d) | Some pd \<Rightarrow> Some (min pd (now + d)))"

text \<open>
  \<open>getClusterVersion\<close> derives \<open>discoveryCtx\<close> and discards it (\<open>_ = discoveryCtx\<close>):
  \<open>ServerVersion\<close> is called without a context. \<open>now\<close> is the instant of its
  \<open>WithTimeout\<close>.
\<close>

definition getClusterVersion :: "int option \<Rightarrow> int \<Rightarrow> Clientset \<Rightarrow> event list \<times> (string + string)" where
  "getClusterVersion ctx now clientset =
     (let discoveryCtx = WithTimeout ctx now DiscoveryTimeout
      in ([CallServerVersion (BoundContext clientset)],
          (case ServerVersion (Api clientset) of
             Inl err \<Rightarrow> Inl err
           | Inr gitVersion \<Rightarrow> Inr gitVersion)))"

definition collectNodeInfo :: "int option \<Rightarrow> Clientset \<Rightarrow> event list \<times> (string + NodeInfo list \<times> int)" where
  "collectNodeInfo ctx clientset =
     ([CallListNodes (BoundContext clientset) ctx],
      (case ListNodes (Api clientset) of
         Inl err \<Rightarrow> Inl err
       | Inr items \<Rightarrow> Inr (nodeLoop [] 0 items)))"

definition collectNamespaceList :: "int option \<Rightarrow> Clientset \<Rightarrow> event list \<times> (string + string list)" where
  "collectNamespaceList ctx clientset =
     ([CallListNamespaces (BoundContext clientset) ctx],
      (case ListNamespaces (Api clientset) of
         Inl err \<Rightarrow> Inl err
       | Inr names \<Rightarrow> Inr names))"

definition collectPodHealth :: "int option \<Rightarrow> Clientset \<Rightarrow> event list \<times> (string + int \<times> int \<times> PodInfo list)" where
  "collectPodHealth ctx clientset =
     ([CallListPods (BoundContext clientset) ctx],
      (case ListPods (Api clientset) of
         Inl err \<Rightarrow> Inl err
       | Inr items \<Rightarrow> Inr (classifyPods items)))"

section \<open>Provider (provider.go, cache.go)\<close>

subsection \<open>Configuration\<close>

text \<open>
  The kubeconfig as \<open>clientcmd.LoadFromFile\<close> returns it, by the fields \<open>NewProvider\<close>
  reads: the contexts and the clusters by name, and the current context.
\<close>

record RawContext =
  Cluster :: string
  AuthInfo :: string
  ContextNamespace :: string

record RawCluster =
  ClusterServer :: string

record Config =
  Contexts :: "string \<rightharpoonup> RawContext"
  Clusters :: "string \<rightharpoonup> RawCluster"
  CurrentContext :: string

record Provider =
  kubeconfigPath :: string
  rawConfig :: Config
  clusters :: "string \<rightharpoonup> ClusterInfo"
  currentContext :: string
  cache :: "string \<rightharpoonup> CachedClusterStatus"
  cacheTTL :: int

text \<open>
  The loop of \<open>NewProvider\<close> over the contexts: the iteration for a context writes the one
  key of that context, or nothing when its cluster is not among the clusters, so the
  resulting map is given key by key.
\<close>

definition loadClusters :: "Config \<Rightarrow> (string \<rightharpoonup> ClusterInfo)" where
  "loadClusters raw = (\<lambda>contextName.
     (case Contexts raw contextName of
        None \<Rightarrow> None
      | Some contextInfo \<Rightarrow>
          (let clusterName = Cluster contextInfo
           in (case Clusters raw clusterName of
                 None \<Rightarrow> None
               | Some cluster \<Rightarrow>
                   Some \<lparr>Name = clusterName, Server = ClusterServer cluster,
                         Context = contextName, User = AuthInfo contextInfo,
                         Namespace = ContextNamespace contextInfo,
                         IsCurrent = (contextName = CurrentContext raw),
                         IsReachable = False\<rparr>))))"

text \<open>
  \<open>NewProvider\<close>; \<open>loaded\<close> is what \<open>clientcmd.LoadFromFile(kubeconfigPath)\<close> returned: the
  error of a file that is missing or does not parse, or the configuration.
\<close>

definition minute :: int where
  "minute = 60 * second"

definition NewProvider :: "string \<Rightarrow> string + Config \<Rightarrow> string + Provider" where
  "NewProvider path loaded =
     (case loaded of
        Inl err \<Rightarrow> Inl (''failed to load kubeconfig: '' @ err)
      | Inr raw \<Rightarrow>
          Inr \<lparr>kubeconfigPath = path, rawConfig = raw, clusters = loadClusters raw,
               currentContext = CurrentContext raw, cache = Map.empty,
               cacheTTL = 1 * minute\<rparr>)"

text \<open>
  \<open>GetClusters\<close> ranges over the cluster map; Go leaves the order of a map iteration open,
  so the order is an argument: the keys as the iteration yields them (each key of the map
  once).
\<close>

definition GetClusters :: "string list \<Rightarrow> Provider \<Rightarrow> ClusterInfo list" where
  "GetClusters order p = List.map_filter (clusters p) order"

definition iteration_order :: "string list \<Rightarrow> (string \<rightharpoonup> 'v) \<Rightarrow> bool" where
  "iteration_order order m = (distinct order \<and> set order = dom m)"

text \<open>
  The verb \<open>%q\<close> of a string (\<open>strconv.Quote\<close>). The string is read rune by rune
  with \<open>utf8.DecodeRuneInString\<close>: a byte that does not start a well-formed UTF-8
  sequence decodes to \<open>RuneError\<close> with width 1 and is written \<^verbatim>\<open>\xNN\<close>. A rune is
  a code point, here a natural number.
\<close>

definition hexDigit :: "nat \<Rightarrow> char" where
  "hexDigit n = ''0123456789abcdef'' ! (n mod 16)"

definition RuneError :: nat where
  "RuneError = 0xFFFD"

definition continuation :: "nat \<Rightarrow> bool" where
  "continuation b = (0x80 \<le> b \<and> b \<le> 0xBF)"

definition secondLow :: "nat \<Rightarrow> nat" where
  "secondLow b0 = (if b0 = 0xE0 then 0xA0 else if b0 = 0xF0 then 0x90 else 0x80)"

definition secondHigh :: "nat \<Rightarrow> nat" where
  "secondHigh b0 = (if b0 = 0xED then 0x9F else if b0 = 0xF4 then 0x8F else 0xBF)"

definition DecodeRune :: "nat list \<Rightarrow> nat \<times> nat" where
  "DecodeRune bs =
     (case bs of
        [] \<Rightarrow> (RuneError, 0)
      | b0 # rest \<Rightarrow>
          if b0 < 0x80 then (b0, 1)
          else if 0xC2 \<le> b0 \<and> b0 \<le> 0xDF then
            (case rest of
               b1 # _ \<Rightarrow>
                 if continuation b1 then ((b0 mod 0x20) * 0x40 + b1 mod 0x40, 2)
                 else (RuneError, 1)
             | _ \<Rightarrow> (RuneError, 1))
          else if 0xE0 \<le> b0 \<and> b0 \<le> 0xEF then
            (case rest of
               b1 # b2 # _ \<Rightarrow>
                 if secondLow b0 \<le> b1 \<and> b1 \<le> secondHigh b0 \<and> continuation b2
                 then ((b0 mod 0x10) * 0x1000 + (b1 mod 0x40) * 0x40 + b2 mod 0x40, 3)
                 else (RuneError, 1)
             | _ \<Rightarrow> (RuneError, 1))
          else if 0xF0 \<le> b0 \<and> b0 \<le> 0xF4 then
            (case rest of
               b1 # b2 # b3 # _ \<Rightarrow>
                 if secondLow b0 \<le> b1 \<and> b1 \<le> secondHigh b0 \<and> continuation b2 \<and> continuation b3
                 then ((b0 mod 0x08) * 0x40000 + (b1 mod 0x40) * 0x1000 + (b2 mod 0x40) * 0x40
                         + b3 mod 0x40, 4)
                 else (RuneError, 1)
             | _ \<Rightarrow> (RuneError, 1))
          else (RuneError, 1))"

text \<open>
  \<open>strconv.IsPrint\<close> decides the runes up to U+00FF by comparisons and the others by the
  tables of the Go library. The tables are not reproduced: \<open>printableAbove\<close> stands for
  them, and nothing is assumed about it.
\<close>

definition printableAbove :: "nat \<Rightarrow> bool" where
  "printableAbove = undefined"

definition IsPrint :: "nat \<Rightarrow> bool" where
  "IsPrint r =
     (if r \<le> 0xFF then
        (if 0x20 \<le> r \<and> r \<le> 0x7E then True
         else if 0xA1 \<le> r \<and> r \<le> 0xFF then r \<noteq> 0xAD
         else False)
      else printableAbove r)"

text \<open>\<open>hexDigits k r\<close> are the lowest \<open>k\<close> hexadecimal digits of \<open>r\<close>, highest first.\<close>

definition hexDigits :: "nat \<Rightarrow> nat \<Rightarrow> string" where
  "hexDigits k r = map (\<lambda>i. hexDigit (r div 16 ^ i)) (rev [0..<k])"

text \<open>
  \<open>appendEscapedRune\<close> for the double quote, without the \<open>ASCIIonly\<close> and \<open>graphicOnly\<close>
  modes; \<open>encoding\<close> are the bytes of the rune.
\<close>

definition appendEscapedRune :: "nat \<Rightarrow> string \<Rightarrow> string" where
  "appendEscapedRune r encoding =
     (if r = 0x22 \<or> r = 0x5C then [CHR 0x5C, char_of r]
      else if IsPrint r then encoding
      else if r = 7 then [CHR 0x5C, CHR ''a'']
      else if r = 8 then [CHR 0x5C, CHR ''b'']
      else if r = 12 then [CHR 0x5C, CHR ''f'']
      else if r = 10 then [CHR 0x5C, CHR ''n'']
      else if r = 13 then [CHR 0x5C, CHR ''r'']
      else if r = 9 then [CHR 0x5C, CHR ''t'']
      else if r = 11 then [CHR 0x5C, CHR ''v'']
      else if r < 0x20 \<or> r = 0x7F then CHR 0x5C # CHR ''x'' # hexDigits 2 r
      else if r < 0x10000 then CHR 0x5C # CHR ''u'' # hexDigits 4 r
      else CHR 0x5C # CHR ''U'' # hexDigits 8 r)"

text \<open>The loop of \<open>appendQuotedWith\<close> over the rest of the string.\<close>

function quoteLoop :: "string \<Rightarrow> string" where
  "quoteLoop [] = []"
| "quoteLoop (c # rest) =
     (let (r, width) = DecodeRune (map of_char (c # rest))
      in if width = 1 \<and> r = RuneError
         then CHR 0x5C # CHR ''x'' # hexDigits 2 (of_char c) @ quoteLoop rest
         else appendEscapedRune r (take width (c # rest)) @ quoteLoop (drop (width - 1) rest))"
  by pat_completeness auto
termination
  by (relation "measure length") auto

definition Quote :: "string \<Rightarrow> string" where
  "Quote s = CHR 0x22 # quoteLoop s @ [CHR 0x22]"

definition GetClusterByContext :: "Provider \<Rightarrow> string \<Rightarrow> string + ClusterInfo" where
  "GetClusterByContext p contextName =
     (case clusters p contextName of
        None \<Rightarrow> Inl (''cluster context '' @ Quote contextName @ '' not found'')
      | Some cluster \<Rightarrow> Inr cluster)"

definition createClientset :: "(string \<Rightarrow> Backend) \<Rightarrow> string \<Rightarrow> string + Clientset \<times> string" where
  "createClientset env contextName =
     (case ClientConfig (env contextName) of
        Inl err \<Rightarrow> Inl (''failed to create client config: '' @ err)
      | Inr host \<Rightarrow>
          (case NewForConfig (env contextName) of
             Some err \<Rightarrow> Inl (''failed to create clientset: '' @ err)
           | None \<Rightarrow> Inr (\<lparr>BoundContext = contextName, Api = env contextName\<rparr>, host)))"

subsection \<open>The status cache\<close>

text \<open>\<open>now\<close> is the reading of \<open>time.Now()\<close>; \<open>After\<close> is strict.\<close>

definition getCachedStatus :: "int \<Rightarrow> Provider \<Rightarrow> string \<Rightarrow> ClusterStatus option" where
  "getCachedStatus now p contextName =
     (case cache p contextName of
        None \<Rightarrow> None
      | Some cached \<Rightarrow> if now > ExpiresAt cached then None else Status cached)"

definition cacheStatus :: "int \<Rightarrow> Provider \<Rightarrow> string \<Rightarrow> ClusterStatus \<Rightarrow> Provider" where
  "cacheStatus now p contextName status =
     p\<lparr>cache := (cache p)(contextName \<mapsto> \<lparr>Status = Some status, ExpiresAt = now + cacheTTL p\<rparr>)\<rparr>"

definition ClearCache :: "Provider \<Rightarrow> Provider" where
  "ClearCache p = p\<lparr>cache := Map.empty\<rparr>"

definition SetCacheTTL :: "int \<Rightarrow> Provider \<Rightarrow> Provider" where
  "SetCacheTTL ttl p = p\<lparr>cacheTTL := ttl\<rparr>"

subsection \<open>Assembling the status of one cluster\<close>

text \<open>The literal \<open>&ClusterStatus{ClusterInfo: *clusterInfo}\<close>: every other field is zero.\<close>

definition newClusterStatus :: "ClusterInfo \<Rightarrow> ClusterStatus" where
  "newClusterStatus clusterInfo =
     \<lparr>Name = Name clusterInfo, Server = Server clusterInfo, Context = Context clusterInfo,
      User = User clusterInfo, Namespace = Namespace clusterInfo,
      IsCurrent = IsCurrent clusterInfo, IsReachable = IsReachable clusterInfo,
      Version = [], NodeCount = 0, HealthyNodes = 0, Nodes = [], NamespaceList = [],
      APIServerURL = [], Error = [], PodCount = 0, HealthyPods = 0, UnhealthyPods = []\<rparr>"

text \<open>
  The clock readings of one call of \<open>GetClusterStatus\<close>, in the order the call takes them:
  the cache lookup, the \<open>WithTimeout\<close> of the query context, the \<open>WithTimeout\<close> inside the
  version probe, and the cache store.
\<close>

record Clock =
  tLookup :: int
  tQuery :: int
  tDiscovery :: int
  tStore :: int

text \<open>
  \<open>GetClusterStatus\<close>. \<open>env\<close> gives the cluster behind each context, \<open>ctx\<close> is the caller's
  context. The result is the returned pair (the error as \<open>Inl\<close>), the provider after the
  call, and the calls made.
\<close>

definition GetClusterStatus ::
    "(string \<Rightarrow> Backend) \<Rightarrow> Clock \<Rightarrow> int option \<Rightarrow> Provider \<Rightarrow> string
      \<Rightarrow> (string + ClusterStatus) \<times> Provider \<times> event list" where
  "GetClusterStatus env clk ctx p contextName =
     (case getCachedStatus (tLookup clk) p contextName of
        Some cached \<Rightarrow> (Inr cached, p, [])
      | None \<Rightarrow>
     (case GetClusterByContext p contextName of
        Inl err \<Rightarrow> (Inl err, p, [])
      | Inr clusterInfo \<Rightarrow>
     (let status = newClusterStatus clusterInfo in
     (case createClientset env contextName of
        Inl err \<Rightarrow> (Inr (status\<lparr>Error := err\<rparr>), p, [CallCreateClientset contextName])
      | Inr (clientset, host) \<Rightarrow>
     (let queryCtx = WithTimeout ctx (tQuery clk) (10 * second);
          (ev1, versionResult) = getClusterVersion queryCtx (tDiscovery clk) clientset in
     (case versionResult of
        Inl err \<Rightarrow>
          (Inr (status\<lparr>Error := ''Failed to reach cluster: '' @ err, IsReachable := False\<rparr>),
           p, CallCreateClientset contextName # ev1)
      | Inr version \<Rightarrow>
     (let status = status\<lparr>Version := version, IsReachable := True, APIServerURL := host\<rparr>;
          (ev2, nodeResult) = collectNodeInfo queryCtx clientset in
     (case nodeResult of
        Inl err \<Rightarrow>
          (Inr (status\<lparr>Error := ''Failed to list nodes: '' @ err\<rparr>),
           p, CallCreateClientset contextName # ev1 @ ev2)
      | Inr (nodeInfos, healthyNodes) \<Rightarrow>
     (let status = status\<lparr>Nodes := nodeInfos, NodeCount := int (length nodeInfos),
                          HealthyNodes := healthyNodes\<rparr>;
          (ev3, namespaceResult) = collectNamespaceList queryCtx clientset;
          status = (case namespaceResult of
                      Inl err \<Rightarrow> status
                    | Inr namespaceList \<Rightarrow> status\<lparr>NamespaceList := namespaceList\<rparr>);
          (ev4, podResult) = collectPodHealth queryCtx clientset;
          status = (case podResult of
                      Inl err \<Rightarrow> status
                    | Inr (totalPods, healthyPods, unhealthyPods) \<Rightarrow>
                        status\<lparr>PodCount := totalPods, HealthyPods := healthyPods,
                               UnhealthyPods := unhealthyPods\<rparr>)
      in (Inr status, cacheStatus (tStore clk) p contextName status,
          CallCreateClientset contextName # ev1 @ ev2 @ ev3 @ ev4))))))))))"

subsection \<open>All clusters in parallel\<close>

text \<open>
  The status a goroutine of \<open>GetAllClusterStatuses\<close> stores when \<open>GetClusterStatus\<close>
  returns an error.
\<close>

definition errorStatus :: "string \<Rightarrow> string \<Rightarrow> ClusterStatus" where
  "errorStatus contextName err =
     \<lparr>Name = contextName, Server = [], Context = contextName, User = [], Namespace = [],
      IsCurrent = False, IsReachable = False,
      Version = [], NodeCount = 0, HealthyNodes = 0, Nodes = [], NamespaceList = [],
      APIServerURL = [], Error = err, PodCount = 0, HealthyPods = 0, UnhealthyPods = []\<rparr>"

text \<open>
  The state the goroutines share: the provider (its cache), the result slice (a slot is
  \<open>None\<close> while its pointer is nil) and the calls made so far.
\<close>

record Shared =
  provider :: Provider
  statuses :: "ClusterStatus option list"
  trace :: "event list"

text \<open>The body of the goroutine started for index \<open>idx\<close> and context \<open>contextName\<close>.\<close>

definition goroutine ::
    "(string \<Rightarrow> Backend) \<Rightarrow> Clock \<Rightarrow> int option \<Rightarrow> nat \<Rightarrow> string \<Rightarrow> Shared \<Rightarrow> Shared" where
  "goroutine env clk ctx idx contextName sh =
     (case GetClusterStatus env clk ctx (provider sh) contextName of
        (Inl err, p', evs) \<Rightarrow>
          \<lparr>provider = p', statuses = (statuses sh)[idx := Some (errorStatus contextName err)],
           trace = trace sh @ evs\<rparr>
      | (Inr status, p', evs) \<Rightarrow>
          \<lparr>provider = p', statuses = (statuses sh)[idx := Some status],
           trace = trace sh @ evs\<rparr>)"

text \<open>
  \<open>GetAllClusterStatuses\<close> starts one goroutine per cluster and waits for all of them. A
  goroutine touches the shared state at its cache lookup, at its cache store (both under
  the cache's lock) and at the write of its own slot; the goroutines are run here one
  after the other in the order \<open>schedule\<close>, a list of the indices, which stands for the
  order in which the scheduler lets them through. \<open>clks idx\<close> are the clock readings of
  goroutine \<open>idx\<close>, \<open>order\<close> the iteration order of \<open>GetClusters\<close>.
\<close>

definition runGoroutines ::
    "(string \<Rightarrow> Backend) \<Rightarrow> (nat \<Rightarrow> Clock) \<Rightarrow> int option \<Rightarrow> ClusterInfo list \<Rightarrow> nat list
      \<Rightarrow> Shared \<Rightarrow> Shared" where
  "runGoroutines env clks ctx clusterList schedule sh =
     foldl (\<lambda>s idx. goroutine env (clks idx) ctx idx (Context (clusterList ! idx)) s) sh schedule"

definition GetAllClusterStatuses ::
    "(string \<Rightarrow> Backend) \<Rightarrow> (nat \<Rightarrow> Clock) \<Rightarrow> int option \<Rightarrow> string list \<Rightarrow> nat list \<Rightarrow> Provider
      \<Rightarrow> ClusterStatus option list \<times> Provider \<times> event list" where
  "GetAllClusterStatuses env clks ctx order schedule p =
     (let clusterList = GetClusters order p;
          sh = \<lparr>provider = p, statuses = replicate (length clusterList) None, trace = []\<rparr>;
          sh' = runGoroutines env clks ctx clusterList schedule sh
      in (statuses sh', provider sh', trace sh'))"

subsection \<open>The current context\<close>

definition GetCurrentContext :: "Provider \<Rightarrow> string" where
  "GetCurrentContext p = currentContext p"

text \<open>
  \<open>SetCurrentContext\<close> writes the flag of every cluster of the map through its pointer;
  the entries are distinct objects, one per key.
\<close>

definition SetCurrentContext :: "string \<Rightarrow> Provider \<Rightarrow> string + Provider" where
  "SetCurrentContext contextName p =
     (case clusters p contextName of
        None \<Rightarrow> Inl (''cluster context '' @ Quote contextName @ '' not found'')
      | Some _ \<Rightarrow>
          Inr (p\<lparr>currentContext := contextName,
                 clusters := (\<lambda>k. map_option
                    (\<lambda>cluster. cluster\<lparr>IsCurrent := (Context cluster = contextName)\<rparr>)
                    (clusters p k))\<rparr>))"

section \<open>Health analysis (package agent, tools.go)\<close>

text \<open>
  The verb \<open>%d\<close> of an \<open>int\<close>: decimal digits, with a minus sign for a negative number.
\<close>

fun natDigits :: "nat \<Rightarrow> string" where
  "natDigits n =
     (if n < 10 then [''0123456789'' ! n]
      else natDigits (n div 10) @ [''0123456789'' ! (n mod 10)])"

declare natDigits.simps [simp del]

definition formatInt :: "int \<Rightarrow> string" where
  "formatInt i = (if i < 0 then CHR ''-'' # natDigits (nat (- i)) else natDigits (nat i))"

text \<open>Go's \<open>int\<close> is 64 bits wide here: the result of an addition or subtraction wraps.\<close>

definition wrap64 :: "int \<Rightarrow> int" where
  "wrap64 i = (i + 2 ^ 63) mod 2 ^ 64 - 2 ^ 63"

text \<open>The marks that open an issue line, as the bytes of the string literals in the source.\<close>

definition warnMark :: string where
  "warnMark = [CHR 0xE2, CHR 0x80, CHR 0x9A, CHR 0xC3, CHR 0xB6, CHR 0xE2, CHR 0x80, CHR 0xA0,
               CHR 0xC3, CHR 0x94, CHR 0xE2, CHR 0x88, CHR 0x8F, CHR 0xC3, CHR 0xA8]"

definition crossMark :: string where
  "crossMark = [CHR 0xE2, CHR 0x80, CHR 0x9A, CHR 0xC3, CHR 0xB9, CHR 0xC3, CHR 0xA5]"

definition nodeIssue :: "ClusterStatus \<Rightarrow> string" where
  "nodeIssue status =
     warnMark @ ''  '' @ Context status @ '': '' @ formatInt (HealthyNodes status) @ ''/''
       @ formatInt (NodeCount status) @ '' nodes healthy''"

definition podIssue :: "ClusterStatus \<Rightarrow> int \<Rightarrow> string" where
  "podIssue status unhealthyCount =
     warnMark @ ''  '' @ Context status @ '': '' @ formatInt unhealthyCount @ ''/''
       @ formatInt (PodCount status) @ '' pods unhealthy''"

definition unreachableIssue :: "ClusterStatus \<Rightarrow> string" where
  "unreachableIssue status =
     crossMark @ '' '' @ Context status @ '': UNREACHABLE - '' @ Error status"

record clusterHealthSummary =
  reachableCount :: int
  healthyCount :: int
  totalUnhealthyPods :: int
  issues :: "string list"

text \<open>
  \<open>processReachableCluster\<close>. The two counters incremented by one count elements of the
  slice and cannot wrap; the difference and the running sum of unhealthy pods are computed
  on the fields of the statuses and wrap as \<open>int\<close> does.
\<close>

definition processReachableCluster :: "ClusterStatus \<Rightarrow> clusterHealthSummary \<Rightarrow> clusterHealthSummary" where
  "processReachableCluster status summary =
     (let summary = summary\<lparr>reachableCount := reachableCount summary + 1\<rparr>;
          hasIssues = False;
          (summary, hasIssues) =
            (if HealthyNodes status < NodeCount status \<and> NodeCount status > 0
             then (summary\<lparr>issues := issues summary @ [nodeIssue status]\<rparr>, True)
             else (summary, hasIssues));
          (summary, hasIssues) =
            (if HealthyPods status < PodCount status \<and> PodCount status > 0
             then (let unhealthyCount = wrap64 (PodCount status - HealthyPods status)
                   in (summary\<lparr>totalUnhealthyPods := wrap64 (totalUnhealthyPods summary + unhealthyCount),
                               issues := issues summary @ [podIssue status unhealthyCount]\<rparr>, True))
             else (summary, hasIssues))
      in if \<not> hasIssues \<and> NodeCount status > 0
         then summary\<lparr>healthyCount := healthyCount summary + 1\<rparr>
         else summary)"

fun analyzeLoop :: "clusterHealthSummary \<Rightarrow> ClusterStatus list \<Rightarrow> clusterHealthSummary" where
  "analyzeLoop summary [] = summary"
| "analyzeLoop summary (status # rest) =
     analyzeLoop
       (if IsReachable status then processReachableCluster status summary
        else summary\<lparr>issues := issues summary @ [unreachableIssue status]\<rparr>)
       rest"

definition analyzeClusterHealth :: "ClusterStatus list \<Rightarrow> clusterHealthSummary" where
  "analyzeClusterHealth sts =
     analyzeLoop \<lparr>reachableCount = 0, healthyCount = 0, totalUnhealthyPods = 0, issues = []\<rparr> sts"

section \<open>Reachable provider states, and sample inputs\<close>

text \<open>
  The failure terminal states of an assembly: the client cannot be built, the version
  probe fails, or the node list fails.
\<close>

definition assemblyFails :: "Backend \<Rightarrow> bool" where
  "assemblyFails b =
     (isl (ClientConfig b) \<or> NewForConfig b \<noteq> None \<or> isl (ServerVersion b) \<or> isl (ListNodes b))"

text \<open>
  The provider states a program can reach through the exported operations, starting
  from \<open>NewProvider\<close>. (\<open>GetAllClusterStatuses\<close> is a sequence of \<open>GetClusterStatus\<close> calls.)
\<close>

inductive reachable :: "Provider \<Rightarrow> bool" where
  new: "NewProvider path (Inr raw) = Inr p \<Longrightarrow> reachable p"
| status: "reachable p \<Longrightarrow> GetClusterStatus env clk ctx p c = (r, p', evs) \<Longrightarrow> reachable p'"
| clear: "reachable p \<Longrightarrow> reachable (ClearCache p)"
| ttl: "reachable p \<Longrightarrow> reachable (SetCacheTTL d p)"
| current: "reachable p \<Longrightarrow> SetCurrentContext c p = Inr p' \<Longrightarrow> reachable p'"

text \<open>
  What holds in every such state: a cluster entry is stored under its own context name
  and is never marked reachable, and a cached status is a reachable one without error,
  stored under its own context name.
\<close>

definition provider_inv :: "Provider \<Rightarrow> bool" where
  "provider_inv p =
     ((\<forall>k ci. clusters p k = Some ci \<longrightarrow> Context ci = k \<and> \<not> IsReachable ci)
      \<and> (\<forall>k e st. cache p k = Some e \<longrightarrow> Status e = Some st \<longrightarrow>
            IsReachable st \<and> Error st = [] \<and> Context st = k))"

text \<open>The status of an assembly that ran to completion, written out field by field.\<close>

definition completedStatus ::
    "ClusterInfo \<Rightarrow> string \<Rightarrow> string \<Rightarrow> Node list \<Rightarrow> string + string list \<Rightarrow> string + Pod list
      \<Rightarrow> ClusterStatus" where
  "completedStatus ci host v items namespaceResult podResult =
     (newClusterStatus ci)
       \<lparr>IsReachable := True, Version := v,
        NodeCount := int (length (fst (nodeLoop [] 0 items))),
        HealthyNodes := snd (nodeLoop [] 0 items),
        Nodes := fst (nodeLoop [] 0 items),
        NamespaceList := (case namespaceResult of Inl err \<Rightarrow> [] | Inr names \<Rightarrow> names),
        APIServerURL := host,
        PodCount := (case podResult of Inl err \<Rightarrow> 0 | Inr pods \<Rightarrow> fst (classifyPods pods)),
        HealthyPods := (case podResult of Inl err \<Rightarrow> 0 | Inr pods \<Rightarrow> fst (snd (classifyPods pods))),
        UnhealthyPods := (case podResult of Inl err \<Rightarrow> [] | Inr pods \<Rightarrow> snd (snd (classifyPods pods)))\<rparr>"

text \<open>
  A kubeconfig with three contexts, one of them stale (its cluster is gone), the provider
  loaded from it, and clusters that answer a probe in different ways.
\<close>

definition sampleConfig :: Config where
  "sampleConfig =
     \<lparr>Contexts = [''a'' \<mapsto> \<lparr>Cluster = ''ca'', AuthInfo = ''alice'', ContextNamespace = []\<rparr>,
                  ''b'' \<mapsto> \<lparr>Cluster = ''cb'', AuthInfo = ''bob'', ContextNamespace = ''prod''\<rparr>,
                  ''stale'' \<mapsto> \<lparr>Cluster = ''gone'', AuthInfo = ''bob'', ContextNamespace = []\<rparr>],
      Clusters = [''ca'' \<mapsto> \<lparr>ClusterServer = ''https://a:6443''\<rparr>,
                  ''cb'' \<mapsto> \<lparr>ClusterServer = ''https://b:6443''\<rparr>],
      CurrentContext = ''a''\<rparr>"

definition sampleProvider :: Provider where
  "sampleProvider =
     \<lparr>kubeconfigPath = ''/kube/config'', rawConfig = sampleConfig,
      clusters = loadClusters sampleConfig, currentContext = ''a'', cache = Map.empty,
      cacheTTL = 1 * minute\<rparr>"

definition healthyBackend :: Backend where
  "healthyBackend =
     \<lparr>ClientConfig = Inr ''https://a:6443'', NewForConfig = None,
      ServerVersion = Inr ''v1.28.0'',
      ListNodes = Inr [\<lparr>NodeObjName = ''n1'', Labels = [''node-role.kubernetes.io/control-plane''],
                         RenderedAge = ''72h0m0s'',
                         Conditions = [\<lparr>CondType = ''Ready'', CondStatus = ''True''\<rparr>]\<rparr>],
      ListNamespaces = Inr [''default''],
      ListPods = Inr []\<rparr>"

definition healthyEnv :: "string \<Rightarrow> Backend" where
  "healthyEnv contextName = healthyBackend"

definition nodeFailureEnv :: "string \<Rightarrow> Backend" where
  "nodeFailureEnv contextName = healthyBackend\<lparr>ListNodes := Inl ''context deadline exceeded''\<rparr>"

definition namespaceFailureEnv :: "string \<Rightarrow> Backend" where
  "namespaceFailureEnv contextName = healthyBackend\<lparr>ListNamespaces := Inl ''forbidden''\<rparr>"

definition downEnv :: "string \<Rightarrow> Backend" where
  "downEnv contextName = healthyBackend\<lparr>ServerVersion := Inl ''dial tcp: i/o timeout''\<rparr>"

definition sampleClock :: Clock where
  "sampleClock = \<lparr>tLookup = 0, tQuery = 1, tDiscovery = 2, tStore = 3\<rparr>"

definition laterClock :: Clock where
  "laterClock = \<lparr>tLookup = 5 * second, tQuery = 5 * second + 1, tDiscovery = 5 * second + 2,
                 tStore = 5 * second + 3\<rparr>"

text \<open>Every goroutine of a parallel run reads the same clock values.\<close>

definition sampleClocks :: "nat \<Rightarrow> Clock" where
  "sampleClocks idx = sampleClock"

text \<open>A context resolves when the configuration has the cluster it refers to.\<close>

definition resolves :: "Config \<Rightarrow> string \<Rightarrow> bool" where
  "resolves raw contextName =
     (case Contexts raw contextName of
        None \<Rightarrow> False
      | Some contextInfo \<Rightarrow> Clusters raw (Cluster contextInfo) \<noteq> None)"

text \<open>
  A provider whose one entry names a context that is not a key of the cluster map (the
  entries are handed out as pointers by \<open>GetClusters\<close>, and their fields are exported).
\<close>

definition strayProvider :: Provider where
  "strayProvider =
     sampleProvider\<lparr>clusters :=
       [''x'' \<mapsto> \<lparr>Name = ''cx'', Server = ''https://x:6443'', Context = ''ghost'', User = ''eve'',
                    Namespace = [], IsCurrent = False, IsReachable = False\<rparr>]\<rparr>"

text \<open>The deadline a call was handed, if it takes a context at all.\<close>

fun deadlineOf :: "event \<Rightarrow> int option" where
  "deadlineOf (CallCreateClientset c) = None"
| "deadlineOf (CallServerVersion c) = None"
| "deadlineOf (CallListNodes c d) = d"
| "deadlineOf (CallListNamespaces c d) = d"
| "deadlineOf (CallListPods c d) = d"

text \<open>
  A status with the fields the health analysis reads, and the issue lines of one status.
\<close>

definition statusOf :: "string \<Rightarrow> bool \<Rightarrow> int \<Rightarrow> int \<Rightarrow> int \<Rightarrow> int \<Rightarrow> string \<Rightarrow> ClusterStatus" where
  "statusOf contextName isReachable nodeCount healthyNodes podCount healthyPods err =
     \<lparr>Name = contextName, Server = [], Context = contextName, User = [], Namespace = [],
      IsCurrent = False, IsReachable = isReachable,
      Version = [], NodeCount = nodeCount, HealthyNodes = healthyNodes, Nodes = [],
      NamespaceList = [], APIServerURL = [], Error = err, PodCount = podCount,
      HealthyPods = healthyPods, UnhealthyPods = []\<rparr>"

definition hasNodeIssue :: "ClusterStatus \<Rightarrow> bool" where
  "hasNodeIssue status = (HealthyNodes status < NodeCount status \<and> NodeCount status > 0)"

definition hasPodIssue :: "ClusterStatus \<Rightarrow> bool" where
  "hasPodIssue status = (HealthyPods status < PodCount status \<and> PodCount status > 0)"

definition issuesOf :: "ClusterStatus \<Rightarrow> string list" where
  "issuesOf status =
     (if IsReachable status then
        (if hasNodeIssue status then [nodeIssue status] else [])
        @ (if hasPodIssue status
           then [podIssue status (wrap64 (PodCount status - HealthyPods status))] else [])
      else [unreachableIssue status])"


section \<open>Properties\<close>

subsection \<open>Pod health classification\<close>

lemma containersReady_iff: "containersReady css = (\<forall>cs \<in> set css. Ready cs)"
  by (induction css) auto

lemma podLoop_eq:
  "podLoop h u pods =
     (h + int (length (filter isPodHealthy pods)),
      u @ map extractPodInfo (filter (\<lambda>p. \<not> isPodHealthy p) pods))"
  by (induction pods arbitrary: h u) auto

text \<open>
  C4. A pod is classified healthy exactly when its phase is Running and every container
  status reports ready; a Succeeded pod is unhealthy even with all containers ready, and
  Pending and Failed pods are unhealthy; the unhealthy list holds one entry for each pod
  classified unhealthy, in order, and the healthy count plus the length of the unhealthy
  list is the total pod count.
\<close>

theorem pod_health_classification:
  "(isPodHealthy pod = (Phase pod = PodRunning \<and> (\<forall>cs \<in> set (ContainerStatuses pod). Ready cs)))
   \<and> \<not> isPodHealthy (pod\<lparr>Phase := PodSucceeded\<rparr>)
   \<and> \<not> isPodHealthy (pod\<lparr>Phase := PodPending\<rparr>)
   \<and> \<not> isPodHealthy (pod\<lparr>Phase := PodFailed\<rparr>)
   \<and> (case classifyPods items of
        (totalPods, healthyPods, unhealthyPods) \<Rightarrow>
          unhealthyPods = map extractPodInfo (filter (\<lambda>p. \<not> isPodHealthy p) items)
          \<and> healthyPods = int (length (filter isPodHealthy items))
          \<and> totalPods = int (length items)
          \<and> healthyPods + int (length unhealthyPods) = totalPods)"
proof -
  have iff: "isPodHealthy pod = (Phase pod = PodRunning \<and> (\<forall>cs \<in> set (ContainerStatuses pod). Ready cs))"
    by (auto simp: isPodHealthy_def containersReady_iff)
  have phases: "\<not> isPodHealthy (pod\<lparr>Phase := PodSucceeded\<rparr>)"
    "\<not> isPodHealthy (pod\<lparr>Phase := PodPending\<rparr>)"
    "\<not> isPodHealthy (pod\<lparr>Phase := PodFailed\<rparr>)"
    by (simp_all add: isPodHealthy_def PodSucceeded_def PodRunning_def PodPending_def PodFailed_def)
  have len: "length (filter isPodHealthy items) + length (filter (\<lambda>p. \<not> isPodHealthy p) items)
              = length items"
    by (rule sum_length_filter_compl)
  have counts: "(case classifyPods items of
        (totalPods, healthyPods, unhealthyPods) \<Rightarrow>
          unhealthyPods = map extractPodInfo (filter (\<lambda>p. \<not> isPodHealthy p) items)
          \<and> healthyPods = int (length (filter isPodHealthy items))
          \<and> totalPods = int (length items)
          \<and> healthyPods + int (length unhealthyPods) = totalPods)"
    using len by (simp add: classifyPods_def podLoop_eq)
  from iff phases counts show ?thesis by blast
qed

text \<open>
  The classification on a Running pod with one ready container, and on the same pod after
  it has Succeeded.
\<close>

theorem pod_health_classification_witness:
  "isPodHealthy \<lparr>ObjName = ''web'', ObjNamespace = ''default'', Phase = ''Running'',
       StatusReason = [],
       ContainerStatuses = [\<lparr>Ready = True, RestartCount = 0, Waiting = None, Terminated = None\<rparr>]\<rparr>
   \<and> \<not> isPodHealthy \<lparr>ObjName = ''web'', ObjNamespace = ''default'', Phase = ''Succeeded'',
       StatusReason = [],
       ContainerStatuses = [\<lparr>Ready = True, RestartCount = 0, Waiting = None, Terminated = None\<rparr>]\<rparr>"
  using pod_health_classification
    [of "\<lparr>ObjName = ''web'', ObjNamespace = ''default'', Phase = ''Running'',
          StatusReason = [],
          ContainerStatuses = [\<lparr>Ready = True, RestartCount = 0, Waiting = None, Terminated = None\<rparr>]\<rparr>" "[]"]
  by (simp add: PodRunning_def PodSucceeded_def)

subsection \<open>Facts about one call of GetClusterStatus\<close>

lemmas collector_defs = getClusterVersion_def collectNodeInfo_def collectNamespaceList_def
  collectPodHealth_def createClientset_def GetClusterByContext_def

lemma GetClusterStatus_hit:
  "getCachedStatus (tLookup clk) p c = Some st \<Longrightarrow> GetClusterStatus env clk ctx p c = (Inr st, p, [])"
  by (simp add: GetClusterStatus_def)

lemma GetClusterStatus_unknown:
  "getCachedStatus (tLookup clk) p c = None \<Longrightarrow> clusters p c = None \<Longrightarrow>
   GetClusterStatus env clk ctx p c = (Inl (''cluster context '' @ Quote c @ '' not found''), p, [])"
  by (simp add: GetClusterStatus_def GetClusterByContext_def)

lemma GetClusterStatus_frame:
  assumes "GetClusterStatus env clk ctx p c = (r, p', evs)"
  shows "clusters p' = clusters p \<and> currentContext p' = currentContext p \<and> cacheTTL p' = cacheTTL p
         \<and> kubeconfigPath p' = kubeconfigPath p \<and> rawConfig p' = rawConfig p
         \<and> (\<forall>k. k \<noteq> c \<longrightarrow> cache p' k = cache p k)"
  using assms
  by (auto simp: GetClusterStatus_def collector_defs cacheStatus_def Let_def
           split: option.splits sum.splits prod.splits)

lemma GetClusterStatus_fails:
  assumes "getCachedStatus (tLookup clk) p c = None" "clusters p c = Some ci" "assemblyFails (env c)"
    and "GetClusterStatus env clk ctx p c = (r, p', evs)"
  shows "p' = p \<and> (\<exists>st. r = Inr st \<and> Error st \<noteq> []) \<and> (\<exists>evs'. evs = CallCreateClientset c # evs')"
  using assms
  by (auto simp: GetClusterStatus_def collector_defs assemblyFails_def Let_def isl_def
           split: option.splits sum.splits prod.splits)

lemma GetClusterStatus_complete:
  assumes "getCachedStatus (tLookup clk) p c = None" "clusters p c = Some ci" "\<not> assemblyFails (env c)"
    and "GetClusterStatus env clk ctx p c = (r, p', evs)"
  shows "\<exists>st. r = Inr st \<and> IsReachable st \<and> Error st = [] \<and> Context st = Context ci
           \<and> p' = cacheStatus (tStore clk) p c st"
  using assms
  by (auto simp: GetClusterStatus_def collector_defs assemblyFails_def Let_def isl_def newClusterStatus_def
           split: option.splits sum.splits prod.splits)


lemma GetClusterStatus_node_failure:
  assumes "getCachedStatus (tLookup clk) p c = None" "clusters p c = Some ci"
    "ClientConfig (env c) = Inr host" "NewForConfig (env c) = None"
    "ServerVersion (env c) = Inr v" "ListNodes (env c) = Inl err"
  shows "GetClusterStatus env clk ctx p c =
     (Inr ((newClusterStatus ci)\<lparr>Version := v, IsReachable := True, APIServerURL := host,
                                 Error := ''Failed to list nodes: '' @ err\<rparr>),
      p,
      [CallCreateClientset c, CallServerVersion c,
       CallListNodes c (WithTimeout ctx (tQuery clk) (10 * second))])"
  using assms by (simp add: GetClusterStatus_def collector_defs Let_def)

lemma GetClusterStatus_nodes_listed:
  assumes "getCachedStatus (tLookup clk) p c = None" "clusters p c = Some ci"
    "ClientConfig (env c) = Inr host" "NewForConfig (env c) = None"
    "ServerVersion (env c) = Inr v" "ListNodes (env c) = Inr items"
  shows "GetClusterStatus env clk ctx p c =
     (Inr (completedStatus ci host v items (ListNamespaces (env c)) (ListPods (env c))),
      cacheStatus (tStore clk) p c
        (completedStatus ci host v items (ListNamespaces (env c)) (ListPods (env c))),
      [CallCreateClientset c, CallServerVersion c,
       CallListNodes c (WithTimeout ctx (tQuery clk) (10 * second)),
       CallListNamespaces c (WithTimeout ctx (tQuery clk) (10 * second)),
       CallListPods c (WithTimeout ctx (tQuery clk) (10 * second))])"
proof (cases "ListNamespaces (env c)")
  case nsErr: (Inl e1)
  show ?thesis
  proof (cases "ListPods (env c)")
    case (Inl e2)
    with nsErr assms show ?thesis
      by (simp add: GetClusterStatus_def collector_defs Let_def newClusterStatus_def split_def
            completedStatus_def)
  next
    case (Inr pods)
    with nsErr assms show ?thesis
      by (simp add: GetClusterStatus_def collector_defs Let_def newClusterStatus_def split_def
            completedStatus_def)
  qed
next
  case nsOk: (Inr names)
  show ?thesis
  proof (cases "ListPods (env c)")
    case (Inl e2)
    with nsOk assms show ?thesis
      by (simp add: GetClusterStatus_def collector_defs Let_def newClusterStatus_def split_def
            completedStatus_def)
  next
    case (Inr pods)
    with nsOk assms show ?thesis
      by (simp add: GetClusterStatus_def collector_defs Let_def newClusterStatus_def split_def
            completedStatus_def)
  qed
qed

lemma completedStatus_fields:
  "IsReachable (completedStatus ci host v items nsr pr)"
  "Error (completedStatus ci host v items nsr pr) = []"
  "Version (completedStatus ci host v items nsr pr) = v"
  "Context (completedStatus ci host v items nsr pr) = Context ci"
  "NamespaceList (completedStatus ci host v items nsr pr)
     = (case nsr of Inl err \<Rightarrow> [] | Inr names \<Rightarrow> names)"
  "(PodCount (completedStatus ci host v items nsr pr),
    HealthyPods (completedStatus ci host v items nsr pr),
    UnhealthyPods (completedStatus ci host v items nsr pr))
     = (case pr of Inl err \<Rightarrow> (0, 0, []) | Inr pods \<Rightarrow> classifyPods pods)"
  by (simp_all add: completedStatus_def newClusterStatus_def split: sum.splits)


subsection \<open>The invariant of reachable provider states\<close>

lemma NewProvider_sample: "NewProvider ''/kube/config'' (Inr sampleConfig) = Inr sampleProvider"
  by (simp add: NewProvider_def sampleProvider_def sampleConfig_def)

lemma reachable_sample: "reachable sampleProvider"
  by (rule reachable.new [OF NewProvider_sample])

lemma clusters_sample_a:
  "clusters sampleProvider ''a'' =
     Some \<lparr>Name = ''ca'', Server = ''https://a:6443'', Context = ''a'', User = ''alice'',
           Namespace = [], IsCurrent = True, IsReachable = False\<rparr>"
  by (simp add: sampleProvider_def sampleConfig_def loadClusters_def)

lemma miss_sample: "getCachedStatus t sampleProvider c = None"
  by (simp add: getCachedStatus_def sampleProvider_def)

lemma inv_new: "NewProvider path (Inr raw) = Inr p \<Longrightarrow> provider_inv p"
  by (auto simp: NewProvider_def provider_inv_def loadClusters_def Let_def split: option.splits)

lemma inv_status:
  assumes "provider_inv p" "GetClusterStatus env clk ctx p c = (r, p', evs)"
  shows "provider_inv p'"
proof (cases "getCachedStatus (tLookup clk) p c")
  case (Some st)
  with assms show ?thesis by (simp add: GetClusterStatus_hit)
next
  case None
  show ?thesis
  proof (cases "clusters p c")
    case N: None
    with None assms show ?thesis by (simp add: GetClusterStatus_unknown)
  next
    case (Some ci)
    show ?thesis
    proof (cases "assemblyFails (env c)")
      case True
      from GetClusterStatus_fails [OF None Some True assms(2)] assms(1) show ?thesis by simp
    next
      case False
      from GetClusterStatus_complete [OF None Some False assms(2)]
      obtain st where st: "IsReachable st" "Error st = []" "Context st = Context ci"
        "p' = cacheStatus (tStore clk) p c st" by blast
      from assms(1) Some have "Context ci = c" by (simp add: provider_inv_def)
      with st assms(1) show ?thesis
        by (auto simp: provider_inv_def cacheStatus_def)
    qed
  qed
qed

lemma inv_current: "provider_inv p \<Longrightarrow> SetCurrentContext c p = Inr p' \<Longrightarrow> provider_inv p'"
  by (auto simp: provider_inv_def SetCurrentContext_def split: option.splits)

lemma reachable_inv: "reachable p \<Longrightarrow> provider_inv p"
proof (induction rule: reachable.induct)
  case (new path raw p) then show ?case by (rule inv_new)
next
  case (status p env clk ctx c r p' evs) then show ?case by (blast intro: inv_status)
next
  case (clear p) then show ?case by (simp add: provider_inv_def ClearCache_def)
next
  case (ttl p d) then show ?case by (simp add: provider_inv_def SetCacheTTL_def)
next
  case (current p c p') then show ?case by (blast intro: inv_current)
qed

lemma cached_status_inv:
  "provider_inv p \<Longrightarrow> getCachedStatus t p c = Some st \<Longrightarrow> IsReachable st \<and> Error st = [] \<and> Context st = c"
  by (auto simp: provider_inv_def getCachedStatus_def split: option.splits if_splits)


lemma sample_backend_simps:
  "ClientConfig (nodeFailureEnv c) = Inr ''https://a:6443''"
  "NewForConfig (nodeFailureEnv c) = None"
  "ServerVersion (nodeFailureEnv c) = Inr ''v1.28.0''"
  "ListNodes (nodeFailureEnv c) = Inl ''context deadline exceeded''"
  "ClientConfig (namespaceFailureEnv c) = Inr ''https://a:6443''"
  "NewForConfig (namespaceFailureEnv c) = None"
  "ServerVersion (namespaceFailureEnv c) = Inr ''v1.28.0''"
  "ListNamespaces (namespaceFailureEnv c) = Inl ''forbidden''"
  "ListPods (namespaceFailureEnv c) = Inr []"
  "ClientConfig (healthyEnv c) = Inr ''https://a:6443''"
  "NewForConfig (healthyEnv c) = None"
  "ServerVersion (healthyEnv c) = Inr ''v1.28.0''"
  "ClientConfig (downEnv c) = Inr ''https://a:6443''"
  "NewForConfig (downEnv c) = None"
  "ServerVersion (downEnv c) = Inl ''dial tcp: i/o timeout''"
  by (simp_all add: nodeFailureEnv_def namespaceFailureEnv_def healthyEnv_def downEnv_def healthyBackend_def)

lemma sample_nodes_listed:
  "\<exists>items. ListNodes (namespaceFailureEnv c) = Inr items"
  "\<exists>items. ListNodes (healthyEnv c) = Inr items"
  by (simp_all add: namespaceFailureEnv_def healthyEnv_def healthyBackend_def)

subsection \<open>Reachability, error and version of a status\<close>





subsection \<open>Partial collection failure\<close>

text \<open>
  C3. In an assembly whose version probe succeeded: if the node list fails, the status is
  reachable with the node-list error, its node fields are zero, and neither the namespace
  nor the pod list is called (nothing is cached); if the node list succeeds, a failure of
  the namespace list or of the pod list leaves the corresponding fields empty and the
  error empty, all three list calls are made, and the status is cached.
\<close>

theorem partial_collection_failure:
  assumes miss: "getCachedStatus (tLookup clk) p c = None"
    and found: "clusters p c = Some ci"
    and client: "ClientConfig (env c) = Inr host" "NewForConfig (env c) = None"
    and version: "ServerVersion (env c) = Inr v"
    and run: "GetClusterStatus env clk ctx p c = (r, p', evs)"
  shows "(\<forall>err. ListNodes (env c) = Inl err \<longrightarrow>
            (\<exists>st. r = Inr st \<and> IsReachable st \<and> Error st = ''Failed to list nodes: '' @ err
                 \<and> Error st \<noteq> [] \<and> Nodes st = [] \<and> NodeCount st = 0 \<and> HealthyNodes st = 0
                 \<and> evs = [CallCreateClientset c, CallServerVersion c,
                          CallListNodes c (WithTimeout ctx (tQuery clk) (10 * second))]
                 \<and> p' = p))
       \<and> (\<forall>items. ListNodes (env c) = Inr items \<longrightarrow>
            (\<exists>st. r = Inr st \<and> IsReachable st \<and> Error st = []
                 \<and> NamespaceList st = (case ListNamespaces (env c) of Inl err \<Rightarrow> [] | Inr names \<Rightarrow> names)
                 \<and> (PodCount st, HealthyPods st, UnhealthyPods st)
                     = (case ListPods (env c) of Inl err \<Rightarrow> (0, 0, []) | Inr pods \<Rightarrow> classifyPods pods)
                 \<and> evs = [CallCreateClientset c, CallServerVersion c,
                          CallListNodes c (WithTimeout ctx (tQuery clk) (10 * second)),
                          CallListNamespaces c (WithTimeout ctx (tQuery clk) (10 * second)),
                          CallListPods c (WithTimeout ctx (tQuery clk) (10 * second))]
                 \<and> p' = cacheStatus (tStore clk) p c st))"
proof (intro conjI allI impI)
  fix err assume nf: "ListNodes (env c) = Inl err"
  have "GetClusterStatus env clk ctx p c =
     (Inr ((newClusterStatus ci)\<lparr>Version := v, IsReachable := True, APIServerURL := host,
                                 Error := ''Failed to list nodes: '' @ err\<rparr>),
      p,
      [CallCreateClientset c, CallServerVersion c,
       CallListNodes c (WithTimeout ctx (tQuery clk) (10 * second))])"
    using miss found client version nf by (rule GetClusterStatus_node_failure)
  with run have r: "r = Inr ((newClusterStatus ci)\<lparr>Version := v, IsReachable := True,
                       APIServerURL := host, Error := ''Failed to list nodes: '' @ err\<rparr>)"
    and p: "p' = p"
    and e: "evs = [CallCreateClientset c, CallServerVersion c,
                   CallListNodes c (WithTimeout ctx (tQuery clk) (10 * second))]"
    by simp_all
  show "\<exists>st. r = Inr st \<and> IsReachable st \<and> Error st = ''Failed to list nodes: '' @ err
                 \<and> Error st \<noteq> [] \<and> Nodes st = [] \<and> NodeCount st = 0 \<and> HealthyNodes st = 0
                 \<and> evs = [CallCreateClientset c, CallServerVersion c,
                          CallListNodes c (WithTimeout ctx (tQuery clk) (10 * second))]
                 \<and> p' = p"
    unfolding r p e by (rule exI, intro conjI, rule refl) (simp_all add: newClusterStatus_def)
next
  fix items assume ok: "ListNodes (env c) = Inr items"
  have "GetClusterStatus env clk ctx p c =
     (Inr (completedStatus ci host v items (ListNamespaces (env c)) (ListPods (env c))),
      cacheStatus (tStore clk) p c
        (completedStatus ci host v items (ListNamespaces (env c)) (ListPods (env c))),
      [CallCreateClientset c, CallServerVersion c,
       CallListNodes c (WithTimeout ctx (tQuery clk) (10 * second)),
       CallListNamespaces c (WithTimeout ctx (tQuery clk) (10 * second)),
       CallListPods c (WithTimeout ctx (tQuery clk) (10 * second))])"
    using miss found client version ok by (rule GetClusterStatus_nodes_listed)
  with run have r: "r = Inr (completedStatus ci host v items (ListNamespaces (env c)) (ListPods (env c)))"
    and p: "p' = cacheStatus (tStore clk) p c
        (completedStatus ci host v items (ListNamespaces (env c)) (ListPods (env c)))"
    and e: "evs = [CallCreateClientset c, CallServerVersion c,
       CallListNodes c (WithTimeout ctx (tQuery clk) (10 * second)),
       CallListNamespaces c (WithTimeout ctx (tQuery clk) (10 * second)),
       CallListPods c (WithTimeout ctx (tQuery clk) (10 * second))]"
    by simp_all
  show "\<exists>st. r = Inr st \<and> IsReachable st \<and> Error st = []
                 \<and> NamespaceList st = (case ListNamespaces (env c) of Inl err \<Rightarrow> [] | Inr names \<Rightarrow> names)
                 \<and> (PodCount st, HealthyPods st, UnhealthyPods st)
                     = (case ListPods (env c) of Inl err \<Rightarrow> (0, 0, []) | Inr pods \<Rightarrow> classifyPods pods)
                 \<and> evs = [CallCreateClientset c, CallServerVersion c,
                          CallListNodes c (WithTimeout ctx (tQuery clk) (10 * second)),
                          CallListNamespaces c (WithTimeout ctx (tQuery clk) (10 * second)),
                          CallListPods c (WithTimeout ctx (tQuery clk) (10 * second))]
                 \<and> p' = cacheStatus (tStore clk) p c st"
    unfolding r p e
    by (rule exI, intro conjI, rule refl) (simp_all only: completedStatus_fields)
qed


theorem partial_collection_failure_witness:
  "getCachedStatus (tLookup sampleClock) sampleProvider ''a'' = None
   \<and> ListNodes (nodeFailureEnv ''a'') = Inl ''context deadline exceeded''
   \<and> (\<exists>st. fst (GetClusterStatus nodeFailureEnv sampleClock None sampleProvider ''a'') = Inr st
          \<and> IsReachable st \<and> Error st = ''Failed to list nodes: context deadline exceeded''
          \<and> NodeCount st = 0)
   \<and> snd (snd (GetClusterStatus nodeFailureEnv sampleClock None sampleProvider ''a''))
       = [CallCreateClientset ''a'', CallServerVersion ''a'', CallListNodes ''a'' (Some 10000000001)]
   \<and> ListNamespaces (namespaceFailureEnv ''a'') = Inl ''forbidden''
   \<and> (\<exists>st. fst (GetClusterStatus namespaceFailureEnv sampleClock None sampleProvider ''a'') = Inr st
          \<and> IsReachable st \<and> Error st = [] \<and> NamespaceList st = [])
   \<and> snd (snd (GetClusterStatus namespaceFailureEnv sampleClock None sampleProvider ''a''))
       = [CallCreateClientset ''a'', CallServerVersion ''a'', CallListNodes ''a'' (Some 10000000001),
          CallListNamespaces ''a'' (Some 10000000001), CallListPods ''a'' (Some 10000000001)]"
proof -
  have dl: "WithTimeout None (tQuery sampleClock) (10 * second) = Some 10000000001"
    by (simp add: WithTimeout_def sampleClock_def second_def)
  have run1: "GetClusterStatus nodeFailureEnv sampleClock None sampleProvider ''a''
      = (fst (GetClusterStatus nodeFailureEnv sampleClock None sampleProvider ''a''),
         fst (snd (GetClusterStatus nodeFailureEnv sampleClock None sampleProvider ''a'')),
         snd (snd (GetClusterStatus nodeFailureEnv sampleClock None sampleProvider ''a'')))"
    by simp
  have run2: "GetClusterStatus namespaceFailureEnv sampleClock None sampleProvider ''a''
      = (fst (GetClusterStatus namespaceFailureEnv sampleClock None sampleProvider ''a''),
         fst (snd (GetClusterStatus namespaceFailureEnv sampleClock None sampleProvider ''a'')),
         snd (snd (GetClusterStatus namespaceFailureEnv sampleClock None sampleProvider ''a'')))"
    by simp
  note A = partial_collection_failure [where env = nodeFailureEnv and c = "''a''" and p = sampleProvider
        and clk = sampleClock and ctx = None,
        OF miss_sample clusters_sample_a sample_backend_simps(1,2,3) run1]
  note B = partial_collection_failure [where env = namespaceFailureEnv and c = "''a''" and p = sampleProvider
        and clk = sampleClock and ctx = None,
        OF miss_sample clusters_sample_a sample_backend_simps(5,6,7) run2]
  from sample_nodes_listed(1) [of "''a''"] obtain items
    where items: "ListNodes (namespaceFailureEnv ''a'') = Inr items" by blast
  from A have A': "\<exists>st. fst (GetClusterStatus nodeFailureEnv sampleClock None sampleProvider ''a'') = Inr st
          \<and> IsReachable st \<and> Error st = ''Failed to list nodes: context deadline exceeded''
          \<and> NodeCount st = 0"
    and A'': "snd (snd (GetClusterStatus nodeFailureEnv sampleClock None sampleProvider ''a''))
       = [CallCreateClientset ''a'', CallServerVersion ''a'', CallListNodes ''a'' (Some 10000000001)]"
    by (auto simp add: sample_backend_simps dl)
  from B items have B': "\<exists>st. fst (GetClusterStatus namespaceFailureEnv sampleClock None sampleProvider ''a'') = Inr st
          \<and> IsReachable st \<and> Error st = [] \<and> NamespaceList st = []"
    and B'': "snd (snd (GetClusterStatus namespaceFailureEnv sampleClock None sampleProvider ''a''))
       = [CallCreateClientset ''a'', CallServerVersion ''a'', CallListNodes ''a'' (Some 10000000001),
          CallListNamespaces ''a'' (Some 10000000001), CallListPods ''a'' (Some 10000000001)]"
    by (auto simp add: sample_backend_simps dl)
  from A' A'' B' B'' miss_sample show ?thesis
    by (simp only: sample_backend_simps simp_thms)
qed

subsection \<open>Caching\<close>

lemma GetClusterStatus_version_failure:
  assumes "getCachedStatus (tLookup clk) p c = None" "clusters p c = Some ci"
    "ClientConfig (env c) = Inr host" "NewForConfig (env c) = None"
    "ServerVersion (env c) = Inl err"
  shows "GetClusterStatus env clk ctx p c =
     (Inr ((newClusterStatus ci)\<lparr>Error := ''Failed to reach cluster: '' @ err, IsReachable := False\<rparr>),
      p, [CallCreateClientset c, CallServerVersion c])"
  using assms by (simp add: GetClusterStatus_def collector_defs Let_def)

lemma GetClusterStatus_client_failure:
  assumes "getCachedStatus (tLookup clk) p c = None" "clusters p c = Some ci"
    "createClientset env c = Inl err"
  shows "GetClusterStatus env clk ctx p c =
     (Inr ((newClusterStatus ci)\<lparr>Error := err\<rparr>), p, [CallCreateClientset c])"
  using assms by (simp add: GetClusterStatus_def GetClusterByContext_def Let_def)

lemma getCachedStatus_later:
  "getCachedStatus t p c = None \<Longrightarrow> t \<le> t' \<Longrightarrow> getCachedStatus t' p c = None"
  by (auto simp: getCachedStatus_def split: option.splits if_splits)

lemma GetClusterStatus_probes:
  assumes "getCachedStatus (tLookup clk) p c = None" "clusters p c = Some ci"
  shows "\<exists>evs'. snd (snd (GetClusterStatus env clk ctx p c)) = CallCreateClientset c # evs'"
  using assms
  by (auto simp: GetClusterStatus_def collector_defs Let_def
           split: option.splits sum.splits prod.splits)

text \<open>
  C10. An assembly that ends in a failure terminal state (the client cannot be built, the
  version probe fails, or the node list fails) leaves the provider, and so the cache,
  unchanged; the status it returns is never served from the cache of any reachable
  provider state; and a later call for the same context misses the cache again and
  starts a fresh probe.
\<close>

theorem failed_assembly_leaves_cache:
  assumes reach: "reachable p"
    and miss: "getCachedStatus (tLookup clk) p c = None"
    and found: "clusters p c = Some ci"
    and fails: "assemblyFails (env c)"
    and run: "GetClusterStatus env clk ctx p c = (r, p', evs)"
    and later: "tLookup clk \<le> tLookup clk'"
  shows "p' = p
     \<and> (\<exists>st. r = Inr st \<and> (\<forall>q t k. reachable q \<longrightarrow> getCachedStatus t q k \<noteq> Some st))
     \<and> getCachedStatus (tLookup clk') p' c = None
     \<and> (\<exists>evs'. snd (snd (GetClusterStatus env' clk' ctx' p' c)) = CallCreateClientset c # evs')"
proof -
  from GetClusterStatus_fails [OF miss found fails run]
  obtain st where p: "p' = p" and r: "r = Inr st" and e: "Error st \<noteq> []" by blast
  have never: "\<forall>q t k. reachable q \<longrightarrow> getCachedStatus t q k \<noteq> Some st"
  proof (intro allI impI notI)
    fix q t k assume "reachable q" "getCachedStatus t q k = Some st"
    then have "Error st = []" using cached_status_inv reachable_inv by blast
    with e show False by simp
  qed
  have miss': "getCachedStatus (tLookup clk') p c = None"
    using miss later by (rule getCachedStatus_later)
  from GetClusterStatus_probes [OF miss' found]
  have "\<exists>evs'. snd (snd (GetClusterStatus env' clk' ctx' p c)) = CallCreateClientset c # evs'" .
  with p r never miss' show ?thesis by simp
qed

theorem failed_assembly_leaves_cache_witness:
  "reachable sampleProvider
   \<and> assemblyFails (downEnv ''a'')
   \<and> tLookup sampleClock \<le> tLookup laterClock
   \<and> fst (snd (GetClusterStatus downEnv sampleClock None sampleProvider ''a'')) = sampleProvider
   \<and> getCachedStatus (tLookup laterClock)
        (fst (snd (GetClusterStatus downEnv sampleClock None sampleProvider ''a''))) ''a'' = None
   \<and> (\<exists>evs'. snd (snd (GetClusterStatus healthyEnv laterClock None
        (fst (snd (GetClusterStatus downEnv sampleClock None sampleProvider ''a''))) ''a''))
          = CallCreateClientset ''a'' # evs')"
proof -
  have f: "assemblyFails (downEnv ''a'')"
    by (simp add: assemblyFails_def sample_backend_simps)
  have l: "tLookup sampleClock \<le> tLookup laterClock"
    by (simp add: sampleClock_def laterClock_def second_def)
  have run: "GetClusterStatus downEnv sampleClock None sampleProvider ''a''
      = (fst (GetClusterStatus downEnv sampleClock None sampleProvider ''a''),
         fst (snd (GetClusterStatus downEnv sampleClock None sampleProvider ''a'')),
         snd (snd (GetClusterStatus downEnv sampleClock None sampleProvider ''a'')))"
    by simp
  from failed_assembly_leaves_cache [OF reachable_sample miss_sample clusters_sample_a f run l,
      where env' = healthyEnv and ctx' = None]
    reachable_sample f l
  show ?thesis by auto
qed

text \<open>
  C5, as stated, fails for a first call that ends in a failure terminal state: nothing is
  cached, so a second call five seconds later (the TTL is one minute) probes the cluster
  again, and returns a different status when the cluster has come back.
\<close>

theorem failed_probe_repeated_within_ttl:
  "tLookup laterClock \<le> tStore sampleClock + cacheTTL sampleProvider
   \<and> snd (snd (GetClusterStatus healthyEnv laterClock None
        (fst (snd (GetClusterStatus downEnv sampleClock None sampleProvider ''a''))) ''a''))
      = [CallCreateClientset ''a'', CallServerVersion ''a'', CallListNodes ''a'' (Some 15000000001),
         CallListNamespaces ''a'' (Some 15000000001), CallListPods ''a'' (Some 15000000001)]
   \<and> fst (GetClusterStatus healthyEnv laterClock None
        (fst (snd (GetClusterStatus downEnv sampleClock None sampleProvider ''a''))) ''a'')
      \<noteq> fst (GetClusterStatus downEnv sampleClock None sampleProvider ''a'')"
proof -
  have w: "tLookup laterClock \<le> tStore sampleClock + cacheTTL sampleProvider"
    by (simp add: sampleClock_def laterClock_def sampleProvider_def second_def minute_def)
  have dl: "WithTimeout None (tQuery laterClock) (10 * second) = Some 15000000001"
    by (simp add: WithTimeout_def laterClock_def second_def)
  have first: "GetClusterStatus downEnv sampleClock None sampleProvider ''a'' =
     (Inr ((newClusterStatus \<lparr>Name = ''ca'', Server = ''https://a:6443'', Context = ''a'',
              User = ''alice'', Namespace = [], IsCurrent = True, IsReachable = False\<rparr>)
            \<lparr>Error := ''Failed to reach cluster: '' @ ''dial tcp: i/o timeout'', IsReachable := False\<rparr>),
      sampleProvider, [CallCreateClientset ''a'', CallServerVersion ''a''])"
    using miss_sample clusters_sample_a sample_backend_simps(13,14,15)
    by (rule GetClusterStatus_version_failure)
  obtain items where items: "ListNodes (healthyEnv ''a'') = Inr items"
    using sample_nodes_listed(2) by blast
  have second: "GetClusterStatus healthyEnv laterClock None sampleProvider ''a'' =
     (Inr (completedStatus \<lparr>Name = ''ca'', Server = ''https://a:6443'', Context = ''a'',
              User = ''alice'', Namespace = [], IsCurrent = True, IsReachable = False\<rparr>
             ''https://a:6443'' ''v1.28.0'' items
             (ListNamespaces (healthyEnv ''a'')) (ListPods (healthyEnv ''a''))),
      cacheStatus (tStore laterClock) sampleProvider ''a''
        (completedStatus \<lparr>Name = ''ca'', Server = ''https://a:6443'', Context = ''a'',
              User = ''alice'', Namespace = [], IsCurrent = True, IsReachable = False\<rparr>
             ''https://a:6443'' ''v1.28.0'' items
             (ListNamespaces (healthyEnv ''a'')) (ListPods (healthyEnv ''a''))),
      [CallCreateClientset ''a'', CallServerVersion ''a'',
       CallListNodes ''a'' (WithTimeout None (tQuery laterClock) (10 * second)),
       CallListNamespaces ''a'' (WithTimeout None (tQuery laterClock) (10 * second)),
       CallListPods ''a'' (WithTimeout None (tQuery laterClock) (10 * second))])"
    using miss_sample clusters_sample_a sample_backend_simps(10,11,12) items
    by (rule GetClusterStatus_nodes_listed)
  have diff: "IsReachable (completedStatus \<lparr>Name = ''ca'', Server = ''https://a:6443'', Context = ''a'',
              User = ''alice'', Namespace = [], IsCurrent = True, IsReachable = False\<rparr>
             ''https://a:6443'' ''v1.28.0'' items
             (ListNamespaces (healthyEnv ''a'')) (ListPods (healthyEnv ''a'')))"
    by (rule completedStatus_fields)
  have "completedStatus \<lparr>Name = ''ca'', Server = ''https://a:6443'', Context = ''a'',
              User = ''alice'', Namespace = [], IsCurrent = True, IsReachable = False\<rparr>
             ''https://a:6443'' ''v1.28.0'' items
             (ListNamespaces (healthyEnv ''a'')) (ListPods (healthyEnv ''a''))
        \<noteq> (newClusterStatus \<lparr>Name = ''ca'', Server = ''https://a:6443'', Context = ''a'',
              User = ''alice'', Namespace = [], IsCurrent = True, IsReachable = False\<rparr>)
            \<lparr>Error := ''Failed to reach cluster: '' @ ''dial tcp: i/o timeout'', IsReachable := False\<rparr>"
    using diff by auto
  with w show ?thesis
    by (simp add: first second dl)
qed


text \<open>
  C5, amended. If the first call is served from the cache by an entry that is still
  unexpired at the second call, or the first call misses the cache, the context is
  configured, the assembly runs to completion and the second call looks the cache up
  no later than the TTL after the first call stored its status, then the second call
  returns the same status, makes no call to the cluster and leaves the provider unchanged.
\<close>

theorem cached_status_served_within_ttl:
  assumes run: "GetClusterStatus env clk ctx p c = (r, p1, evs)"
    and served:
      "(getCachedStatus (tLookup clk) p c \<noteq> None \<and> getCachedStatus (tLookup clk') p c \<noteq> None)
       \<or> (getCachedStatus (tLookup clk) p c = None \<and> c \<in> dom (clusters p)
           \<and> \<not> assemblyFails (env c) \<and> tLookup clk' \<le> tStore clk + cacheTTL p)"
  shows "\<exists>st. r = Inr st \<and> GetClusterStatus env' clk' ctx' p1 c = (Inr st, p1, [])"
  using served
proof (elim disjE conjE)
  assume h1: "getCachedStatus (tLookup clk) p c \<noteq> None"
    and h2: "getCachedStatus (tLookup clk') p c \<noteq> None"
  then obtain st where st: "getCachedStatus (tLookup clk) p c = Some st" by blast
  with h2 have st': "getCachedStatus (tLookup clk') p c = Some st"
    by (auto simp: getCachedStatus_def split: option.splits if_splits)
  from run st have "r = Inr st" "p1 = p" by (simp_all add: GetClusterStatus_hit)
  with st' show ?thesis by (simp add: GetClusterStatus_hit)
next
  assume miss: "getCachedStatus (tLookup clk) p c = None"
    and dom: "c \<in> dom (clusters p)" and ok: "\<not> assemblyFails (env c)"
    and win: "tLookup clk' \<le> tStore clk + cacheTTL p"
  from dom obtain ci where found: "clusters p c = Some ci" by blast
  from GetClusterStatus_complete [OF miss found ok run]
  obtain st where r: "r = Inr st" and p1: "p1 = cacheStatus (tStore clk) p c st" by blast
  from win have "getCachedStatus (tLookup clk') (cacheStatus (tStore clk) p c st) c = Some st"
    by (simp add: getCachedStatus_def cacheStatus_def)
  with r p1 show ?thesis by (simp add: GetClusterStatus_hit)
qed


theorem cached_status_served_within_ttl_witness:
  "getCachedStatus (tLookup sampleClock) sampleProvider ''a'' = None
   \<and> ''a'' \<in> dom (clusters sampleProvider)
   \<and> \<not> assemblyFails (healthyEnv ''a'')
   \<and> tLookup laterClock \<le> tStore sampleClock + cacheTTL sampleProvider
   \<and> (\<exists>st. fst (GetClusterStatus healthyEnv sampleClock None sampleProvider ''a'') = Inr st
          \<and> GetClusterStatus downEnv laterClock None
               (fst (snd (GetClusterStatus healthyEnv sampleClock None sampleProvider ''a''))) ''a''
              = (Inr st, fst (snd (GetClusterStatus healthyEnv sampleClock None sampleProvider ''a'')), []))"
proof -
  have d: "''a'' \<in> dom (clusters sampleProvider)"
    by (simp add: clusters_sample_a domI)
  have ok: "\<not> assemblyFails (healthyEnv ''a'')"
    by (simp add: assemblyFails_def healthyEnv_def healthyBackend_def)
  have w: "tLookup laterClock \<le> tStore sampleClock + cacheTTL sampleProvider"
    by (simp add: sampleClock_def laterClock_def sampleProvider_def second_def minute_def)
  have run: "GetClusterStatus healthyEnv sampleClock None sampleProvider ''a''
      = (fst (GetClusterStatus healthyEnv sampleClock None sampleProvider ''a''),
         fst (snd (GetClusterStatus healthyEnv sampleClock None sampleProvider ''a'')),
         snd (snd (GetClusterStatus healthyEnv sampleClock None sampleProvider ''a'')))"
    by simp
  have "(getCachedStatus (tLookup sampleClock) sampleProvider ''a'' \<noteq> None
          \<and> getCachedStatus (tLookup laterClock) sampleProvider ''a'' \<noteq> None)
       \<or> (getCachedStatus (tLookup sampleClock) sampleProvider ''a'' = None
           \<and> ''a'' \<in> dom (clusters sampleProvider)
           \<and> \<not> assemblyFails (healthyEnv ''a'')
           \<and> tLookup laterClock \<le> tStore sampleClock + cacheTTL sampleProvider)"
    using d ok w miss_sample by blast
  from cached_status_served_within_ttl [OF run this, where env' = downEnv and ctx' = None] d ok w miss_sample
  show ?thesis by blast
qed

subsection \<open>The cluster entries after loading\<close>

lemma clusters_sample_b:
  "clusters sampleProvider ''b'' =
     Some \<lparr>Name = ''cb'', Server = ''https://b:6443'', Context = ''b'', User = ''bob'',
           Namespace = ''prod'', IsCurrent = False, IsReachable = False\<rparr>"
  by (simp add: sampleProvider_def sampleConfig_def loadClusters_def)

lemma goroutine_clusters:
  "clusters (provider (goroutine env clk ctx idx c sh)) = clusters (provider sh)"
proof -
  obtain r p' evs where run: "GetClusterStatus env clk ctx (provider sh) c = (r, p', evs)"
    by (cases "GetClusterStatus env clk ctx (provider sh) c") auto
  with GetClusterStatus_frame [OF run] show ?thesis
    by (cases r) (simp_all add: goroutine_def)
qed

lemma runGoroutines_clusters:
  "clusters (provider (runGoroutines env clks ctx cl schedule sh)) = clusters (provider sh)"
  unfolding runGoroutines_def
  by (induction schedule arbitrary: sh) (simp_all add: goroutine_clusters)

lemma SetCurrentContext_sample_b: "\<not> isl (SetCurrentContext ''b'' sampleProvider)"
  by (simp add: SetCurrentContext_def clusters_sample_b)

text \<open>
  C9, as stated, fails: \<open>SetCurrentContext\<close> rewrites the \<open>IsCurrent\<close> flag of the loaded
  entries.
\<close>

theorem SetCurrentContext_mutates_entries:
  "\<not> isl (SetCurrentContext ''b'' sampleProvider)
   \<and> map_option IsCurrent (clusters sampleProvider ''a'') = Some True
   \<and> map_option IsCurrent (clusters (projr (SetCurrentContext ''b'' sampleProvider)) ''a'') = Some False"
  by (simp add: SetCurrentContext_def clusters_sample_b clusters_sample_a)

text \<open>
  C9, amended. \<open>GetClusterStatus\<close>, \<open>GetAllClusterStatuses\<close>, \<open>ClearCache\<close> and
  \<open>SetCacheTTL\<close> leave every entry of the loaded cluster set as it is; a successful
  \<open>SetCurrentContext\<close> keeps the set of entries and every field of every entry except
  \<open>IsCurrent\<close>, which it sets to whether the entry's context is the new current context.
\<close>

theorem cluster_entries_change_only_IsCurrent:
  "(\<forall>r p' evs. GetClusterStatus env clk ctx p c = (r, p', evs) \<longrightarrow> clusters p' = clusters p)
   \<and> clusters (fst (snd (GetAllClusterStatuses env clks ctx order schedule p))) = clusters p
   \<and> clusters (ClearCache p) = clusters p
   \<and> clusters (SetCacheTTL d p) = clusters p
   \<and> (\<forall>p'. SetCurrentContext c p = Inr p' \<longrightarrow>
         (\<forall>k. clusters p' k
               = map_option (\<lambda>ci. ci\<lparr>IsCurrent := (Context ci = c)\<rparr>) (clusters p k)))"
proof (intro conjI allI impI)
  fix r p' evs assume "GetClusterStatus env clk ctx p c = (r, p', evs)"
  then show "clusters p' = clusters p" using GetClusterStatus_frame by blast
next
  show "clusters (fst (snd (GetAllClusterStatuses env clks ctx order schedule p))) = clusters p"
    by (simp add: GetAllClusterStatuses_def Let_def runGoroutines_clusters)
next
  show "clusters (ClearCache p) = clusters p" by (simp add: ClearCache_def)
next
  show "clusters (SetCacheTTL d p) = clusters p" by (simp add: SetCacheTTL_def)
next
  fix p' k assume "SetCurrentContext c p = Inr p'"
  then show "clusters p' k = map_option (\<lambda>ci. ci\<lparr>IsCurrent := (Context ci = c)\<rparr>) (clusters p k)"
    by (auto simp: SetCurrentContext_def split: option.splits)
qed

theorem cluster_entries_change_only_IsCurrent_witness:
  "SetCurrentContext ''b'' sampleProvider = Inr (projr (SetCurrentContext ''b'' sampleProvider))
   \<and> clusters (projr (SetCurrentContext ''b'' sampleProvider)) ''a''
      = Some \<lparr>Name = ''ca'', Server = ''https://a:6443'', Context = ''a'', User = ''alice'',
           Namespace = [], IsCurrent = False, IsReachable = False\<rparr>
   \<and> clusters (projr (SetCurrentContext ''b'' sampleProvider)) ''b''
      = Some \<lparr>Name = ''cb'', Server = ''https://b:6443'', Context = ''b'', User = ''bob'',
           Namespace = ''prod'', IsCurrent = True, IsReachable = False\<rparr>
   \<and> clusters (fst (snd (GetClusterStatus healthyEnv sampleClock None sampleProvider ''a'')))
      = clusters sampleProvider"
proof -
  have ok: "SetCurrentContext ''b'' sampleProvider = Inr (projr (SetCurrentContext ''b'' sampleProvider))"
    using SetCurrentContext_sample_b by (cases "SetCurrentContext ''b'' sampleProvider") simp_all
  have run: "GetClusterStatus healthyEnv sampleClock None sampleProvider ''a''
      = (fst (GetClusterStatus healthyEnv sampleClock None sampleProvider ''a''),
         fst (snd (GetClusterStatus healthyEnv sampleClock None sampleProvider ''a'')),
         snd (snd (GetClusterStatus healthyEnv sampleClock None sampleProvider ''a'')))"
    by simp
  note T1 = cluster_entries_change_only_IsCurrent [of healthyEnv sampleClock None sampleProvider "''a''" sampleClocks "[]" "[]" 0]
  note T2 = cluster_entries_change_only_IsCurrent [of healthyEnv sampleClock None sampleProvider "''b''" sampleClocks "[]" "[]" 0]
  from T1 run have a: "clusters (fst (snd (GetClusterStatus healthyEnv sampleClock None sampleProvider ''a'')))
      = clusters sampleProvider" by blast
  from T2 ok have b: "\<forall>k. clusters (projr (SetCurrentContext ''b'' sampleProvider)) k
      = map_option (\<lambda>ci. ci\<lparr>IsCurrent := (Context ci = ''b'')\<rparr>) (clusters sampleProvider k)"
    by blast
  from a b ok show ?thesis
    by (simp add: clusters_sample_a clusters_sample_b)
qed


subsection \<open>Configuration loading\<close>

lemma loadClusters_dom: "dom (loadClusters raw) = {k. resolves raw k}"
  by (auto simp: loadClusters_def resolves_def Let_def split: option.splits)

lemma loadClusters_entry:
  "loadClusters raw k = Some ci \<Longrightarrow> Context ci = k \<and> IsCurrent ci = (k = CurrentContext raw)"
  by (auto simp: loadClusters_def Let_def split: option.splits)

lemma map_filter_keys:
  "(\<And>k. k \<in> set ks \<Longrightarrow> \<exists>v. m k = Some v \<and> f v = k) \<Longrightarrow> map f (List.map_filter m ks) = ks"
proof (induction ks)
  case Nil
  show ?case by (simp add: List.map_filter_simps)
next
  case (Cons k ks)
  from Cons.prems [of k] obtain v where "m k = Some v" "f v = k" by auto
  moreover have "map f (List.map_filter m ks) = ks"
    by (rule Cons.IH) (simp add: Cons.prems)
  ultimately show ?case by (simp add: List.map_filter_simps)
qed

lemma GetClusters_contexts:
  assumes "iteration_order order (clusters p)"
    and "\<And>k ci. clusters p k = Some ci \<Longrightarrow> Context ci = k"
  shows "map Context (GetClusters order p) = order"
  unfolding GetClusters_def
proof (rule map_filter_keys)
  fix k assume "k \<in> set order"
  with assms(1) obtain ci where "clusters p k = Some ci"
    by (auto simp: iteration_order_def)
  with assms(2) show "\<exists>v. clusters p k = Some v \<and> Context v = k" by blast
qed

text \<open>
  C6. \<open>NewProvider\<close> fails exactly when loading the file failed (missing or unparsable),
  with the wrapped error. For a configuration that parsed it succeeds: the current context
  is surfaced; the cluster set has an entry for exactly the contexts whose cluster
  resolves (a context whose cluster is absent is skipped, without error); each entry is
  stored under its own context name and is flagged current exactly when that name is the
  current context; and \<open>GetClusters\<close> yields one entry per resolving context, with
  pairwise distinct context names.
\<close>

theorem configuration_loading:
  "NewProvider path (Inl err) = Inl (''failed to load kubeconfig: '' @ err)
   \<and> (\<exists>p. NewProvider path (Inr raw) = Inr p
        \<and> GetCurrentContext p = CurrentContext raw
        \<and> dom (clusters p) = {k. resolves raw k}
        \<and> (\<forall>k ci. clusters p k = Some ci \<longrightarrow>
              Context ci = k \<and> IsCurrent ci = (k = CurrentContext raw))
        \<and> (\<forall>order. iteration_order order (clusters p) \<longrightarrow>
              map Context (GetClusters order p) = order
              \<and> distinct (map Context (GetClusters order p))
              \<and> set (map Context (GetClusters order p)) = {k. resolves raw k}
              \<and> length (GetClusters order p) = card {k. resolves raw k}))"
proof -
  let ?p = "\<lparr>kubeconfigPath = path, rawConfig = raw, clusters = loadClusters raw,
               currentContext = CurrentContext raw, cache = Map.empty,
               cacheTTL = 1 * minute\<rparr>"
  have new: "NewProvider path (Inr raw) = Inr ?p" by (simp add: NewProvider_def)
  have cl: "clusters ?p = loadClusters raw" by simp
  have entries: "\<forall>k ci. clusters ?p k = Some ci \<longrightarrow>
              Context ci = k \<and> IsCurrent ci = (k = CurrentContext raw)"
    using loadClusters_entry by simp
  have lists: "\<forall>order. iteration_order order (clusters ?p) \<longrightarrow>
              map Context (GetClusters order ?p) = order
              \<and> distinct (map Context (GetClusters order ?p))
              \<and> set (map Context (GetClusters order ?p)) = {k. resolves raw k}
              \<and> length (GetClusters order ?p) = card {k. resolves raw k}"
  proof (intro allI impI)
    fix order assume io: "iteration_order order (clusters ?p)"
    have m: "map Context (GetClusters order ?p) = order"
      using io entries by (intro GetClusters_contexts) blast+
    from io have d: "distinct order" and s: "set order = {k. resolves raw k}"
      by (simp_all add: iteration_order_def loadClusters_dom)
    have "length (GetClusters order ?p) = length (map Context (GetClusters order ?p))" by simp
    also have "\<dots> = length order" by (simp only: m)
    also have "\<dots> = card (set order)" using d by (simp add: distinct_card)
    finally have "length (GetClusters order ?p) = card {k. resolves raw k}" using s by simp
    with m d s show "map Context (GetClusters order ?p) = order
              \<and> distinct (map Context (GetClusters order ?p))
              \<and> set (map Context (GetClusters order ?p)) = {k. resolves raw k}
              \<and> length (GetClusters order ?p) = card {k. resolves raw k}" by simp
  qed
  have "NewProvider path (Inl err) = Inl (''failed to load kubeconfig: '' @ err)"
    by (simp add: NewProvider_def)
  moreover have "GetCurrentContext ?p = CurrentContext raw" by (simp add: GetCurrentContext_def)
  moreover have "dom (clusters ?p) = {k. resolves raw k}" by (simp add: loadClusters_dom)
  ultimately show ?thesis using new entries lists by blast
qed

lemma sample_resolves: "{k. resolves sampleConfig k} = {''a'', ''b''}"
  by (auto simp: resolves_def sampleConfig_def split: if_splits)

lemma sample_order: "iteration_order [''b'', ''a''] (clusters sampleProvider)"
  unfolding iteration_order_def
  by (simp add: sampleProvider_def loadClusters_dom sample_resolves insert_commute)

theorem configuration_loading_witness:
  "iteration_order [''b'', ''a''] (clusters sampleProvider)
   \<and> NewProvider ''/kube/config'' (Inr sampleConfig) = Inr sampleProvider
   \<and> map Context (GetClusters [''b'', ''a''] sampleProvider) = [''b'', ''a'']
   \<and> clusters sampleProvider ''stale'' = None
   \<and> map_option IsCurrent (clusters sampleProvider ''a'') = Some True
   \<and> length (GetClusters [''b'', ''a''] sampleProvider) = 2"
proof -
  from configuration_loading [of "''/kube/config''" "[]" sampleConfig]
  obtain p where p: "NewProvider ''/kube/config'' (Inr sampleConfig) = Inr p"
    and L: "\<forall>order. iteration_order order (clusters p) \<longrightarrow>
              map Context (GetClusters order p) = order
              \<and> distinct (map Context (GetClusters order p))
              \<and> set (map Context (GetClusters order p)) = {k. resolves sampleConfig k}
              \<and> length (GetClusters order p) = card {k. resolves sampleConfig k}"
    by blast
  from p NewProvider_sample have "p = sampleProvider" by simp
  with L have "\<forall>order. iteration_order order (clusters sampleProvider) \<longrightarrow>
              map Context (GetClusters order sampleProvider) = order
              \<and> distinct (map Context (GetClusters order sampleProvider))
              \<and> set (map Context (GetClusters order sampleProvider)) = {k. resolves sampleConfig k}
              \<and> length (GetClusters order sampleProvider) = card {k. resolves sampleConfig k}"
    by (simp only:)
  with sample_order have "map Context (GetClusters [''b'', ''a''] sampleProvider) = [''b'', ''a'']"
    and "length (GetClusters [''b'', ''a''] sampleProvider) = card {k. resolves sampleConfig k}"
    by blast+
  moreover have "clusters sampleProvider ''stale'' = None"
    by (simp add: sampleProvider_def sampleConfig_def loadClusters_def)
  ultimately show ?thesis
    using sample_order NewProvider_sample
    by (simp add: clusters_sample_a sample_resolves)
qed

subsection \<open>All statuses, by position\<close>

lemma goroutine_length: "length (statuses (goroutine env clk ctx idx c sh)) = length (statuses sh)"
  by (simp add: goroutine_def split: prod.splits sum.splits)

lemma goroutine_other:
  "i \<noteq> idx \<Longrightarrow> statuses (goroutine env clk ctx idx c sh) ! i = statuses sh ! i"
  by (simp add: goroutine_def split: prod.splits sum.splits)

lemma goroutine_slot:
  "idx < length (statuses sh) \<Longrightarrow>
   statuses (goroutine env clk ctx idx c sh) ! idx
     = Some (case fst (GetClusterStatus env clk ctx (provider sh) c) of
               Inl err \<Rightarrow> errorStatus c err
             | Inr status \<Rightarrow> status)"
  by (simp add: goroutine_def split: prod.splits sum.splits)

lemma runGoroutines_Nil: "runGoroutines env clks ctx cl [] sh = sh"
  by (simp add: runGoroutines_def)

lemma runGoroutines_Cons:
  "runGoroutines env clks ctx cl (idx # rest) sh
     = runGoroutines env clks ctx cl rest
         (goroutine env (clks idx) ctx idx (Context (cl ! idx)) sh)"
  by (simp add: runGoroutines_def)

lemma runGoroutines_append:
  "runGoroutines env clks ctx cl (pre @ post) sh
     = runGoroutines env clks ctx cl post (runGoroutines env clks ctx cl pre sh)"
  by (simp add: runGoroutines_def)

lemma runGoroutines_length:
  "length (statuses (runGoroutines env clks ctx cl schedule sh)) = length (statuses sh)"
  by (induction schedule arbitrary: sh)
     (simp_all add: runGoroutines_Nil runGoroutines_Cons goroutine_length)

lemma runGoroutines_other:
  "i \<notin> set schedule \<Longrightarrow>
   statuses (runGoroutines env clks ctx cl schedule sh) ! i = statuses sh ! i"
  by (induction schedule arbitrary: sh)
     (simp_all add: runGoroutines_Nil runGoroutines_Cons goroutine_other)

lemma goroutine_reachable:
  "reachable (provider sh) \<Longrightarrow> reachable (provider (goroutine env clk ctx idx c sh))"
proof -
  assume r: "reachable (provider sh)"
  obtain res p' evs where run: "GetClusterStatus env clk ctx (provider sh) c = (res, p', evs)"
    by (cases "GetClusterStatus env clk ctx (provider sh) c") auto
  from reachable.status [OF r run] run show ?thesis
    by (cases res) (simp_all add: goroutine_def)
qed

lemma runGoroutines_reachable:
  "reachable (provider sh) \<Longrightarrow> reachable (provider (runGoroutines env clks ctx cl schedule sh))"
  by (induction schedule arbitrary: sh)
     (simp_all add: runGoroutines_Nil runGoroutines_Cons goroutine_reachable)

lemma GetClusterStatus_context:
  assumes "provider_inv p" "GetClusterStatus env clk ctx p c = (Inr st, p', evs)"
  shows "Context st = c"
proof (cases "getCachedStatus (tLookup clk) p c")
  case (Some cached)
  with assms(2) have "cached = st" by (simp add: GetClusterStatus_hit)
  with Some cached_status_inv [OF assms(1), of "tLookup clk" c st] show ?thesis by simp
next
  case None
  from assms(1) have "\<And>ci. clusters p c = Some ci \<Longrightarrow> Context ci = c"
    by (simp add: provider_inv_def)
  with None assms(2) show ?thesis
    by (auto simp: GetClusterStatus_def collector_defs newClusterStatus_def Let_def
             split: option.splits sum.splits prod.splits)
qed

lemma slot_after_run:
  assumes "distinct schedule" "i \<in> set schedule" "i < length (statuses sh)"
  shows "\<exists>pre post. schedule = pre @ i # post
      \<and> statuses (runGoroutines env clks ctx cl schedule sh) ! i
          = Some (case fst (GetClusterStatus env (clks i) ctx
                              (provider (runGoroutines env clks ctx cl pre sh))
                              (Context (cl ! i))) of
                    Inl err \<Rightarrow> errorStatus (Context (cl ! i)) err
                  | Inr status \<Rightarrow> status)"
proof -
  from assms(2) obtain pre post where split: "schedule = pre @ i # post"
    by (auto dest: split_list)
  with assms(1) have notin: "i \<notin> set post" by simp
  let ?mid = "runGoroutines env clks ctx cl pre sh"
  have len: "i < length (statuses ?mid)" using assms(3) by (simp add: runGoroutines_length)
  have "statuses (runGoroutines env clks ctx cl schedule sh) ! i
        = statuses (runGoroutines env clks ctx cl post
                      (goroutine env (clks i) ctx i (Context (cl ! i)) ?mid)) ! i"
    by (simp add: split runGoroutines_append runGoroutines_Cons)
  also have "\<dots> = statuses (goroutine env (clks i) ctx i (Context (cl ! i)) ?mid) ! i"
    using notin by (rule runGoroutines_other)
  also have "\<dots> = Some (case fst (GetClusterStatus env (clks i) ctx (provider ?mid) (Context (cl ! i))) of
                    Inl err \<Rightarrow> errorStatus (Context (cl ! i)) err
                  | Inr status \<Rightarrow> status)"
    using len by (rule goroutine_slot)
  finally show ?thesis using split by blast
qed


lemma GetClusters_sample:
  "GetClusters [''b'', ''a''] sampleProvider =
     [\<lparr>Name = ''cb'', Server = ''https://b:6443'', Context = ''b'', User = ''bob'',
       Namespace = ''prod'', IsCurrent = False, IsReachable = False\<rparr>,
      \<lparr>Name = ''ca'', Server = ''https://a:6443'', Context = ''a'', User = ''alice'',
       Namespace = [], IsCurrent = True, IsReachable = False\<rparr>]"
  by (simp add: GetClusters_def List.map_filter_simps clusters_sample_a clusters_sample_b)

lemma GetClusters_stray:
  "GetClusters [''x''] strayProvider =
     [\<lparr>Name = ''cx'', Server = ''https://x:6443'', Context = ''ghost'', User = ''eve'',
       Namespace = [], IsCurrent = False, IsReachable = False\<rparr>]"
  by (simp add: GetClusters_def List.map_filter_simps strayProvider_def)

lemma stray_unknown:
  "GetClusterStatus env clk ctx strayProvider ''ghost''
     = (Inl (''cluster context '' @ Quote ''ghost'' @ '' not found''), strayProvider, [])"
  by (rule GetClusterStatus_unknown)
     (simp_all add: getCachedStatus_def strayProvider_def sampleProvider_def)

text \<open>
  C1. Whatever the order in which the goroutines run and however many probes fail,
  \<open>GetAllClusterStatuses\<close> returns as many statuses as \<open>GetClusters\<close> lists clusters; the
  slot at each position holds the outcome of the \<open>GetClusterStatus\<close> call made for the
  context at that position (in the provider state left by the goroutines that ran
  before it): the status it returned, or, when it returned an error, a status named after
  the context with \<open>IsReachable = False\<close> and the error's message in \<open>Error\<close>. In a
  reachable provider state the context names of the result are, position by position,
  those of the cluster list.
\<close>

theorem all_statuses_by_position:
  assumes "distinct schedule" and "set schedule = {..<length (GetClusters order p)}"
  shows "length (fst (GetAllClusterStatuses env clks ctx order schedule p)) = length (GetClusters order p)
   \<and> (\<forall>i < length (GetClusters order p). \<exists>pre post. schedule = pre @ i # post
        \<and> fst (GetAllClusterStatuses env clks ctx order schedule p) ! i
            = Some (case fst (GetClusterStatus env (clks i) ctx
                        (provider (runGoroutines env clks ctx (GetClusters order p) pre
                           \<lparr>provider = p,
                            statuses = replicate (length (GetClusters order p)) None,
                            trace = []\<rparr>))
                        (Context (GetClusters order p ! i))) of
                      Inl err \<Rightarrow> errorStatus (Context (GetClusters order p ! i)) err
                    | Inr status \<Rightarrow> status))
   \<and> \<not> IsReachable (errorStatus c err) \<and> Error (errorStatus c err) = err
   \<and> Context (errorStatus c err) = c
   \<and> (reachable p \<longrightarrow>
        map (map_option Context) (fst (GetAllClusterStatuses env clks ctx order schedule p))
          = map (\<lambda>cluster. Some (Context cluster)) (GetClusters order p))"
proof -
  let ?cl = "GetClusters order p"
  let ?sh = "\<lparr>provider = p, statuses = replicate (length ?cl) None, trace = []\<rparr>"
  let ?res = "fst (GetAllClusterStatuses env clks ctx order schedule p)"
  have res: "?res = statuses (runGoroutines env clks ctx ?cl schedule ?sh)"
    by (simp add: GetAllClusterStatuses_def Let_def)
  have len: "length ?res = length ?cl"
    by (simp add: res runGoroutines_length)
  have slots: "\<exists>pre post. schedule = pre @ i # post
        \<and> ?res ! i = Some (case fst (GetClusterStatus env (clks i) ctx
                        (provider (runGoroutines env clks ctx ?cl pre ?sh)) (Context (?cl ! i))) of
                      Inl err \<Rightarrow> errorStatus (Context (?cl ! i)) err
                    | Inr status \<Rightarrow> status)" if "i < length ?cl" for i
  proof -
    from that assms(2) have "i \<in> set schedule" by simp
    moreover from that have "i < length (statuses ?sh)" by simp
    ultimately show ?thesis
      unfolding res using assms(1) by (intro slot_after_run)
  qed
  have err: "\<not> IsReachable (errorStatus c err)" "Error (errorStatus c err) = err"
    "Context (errorStatus c err) = c"
    by (simp_all add: errorStatus_def)
  have ctxs: "map (map_option Context) ?res = map (\<lambda>cluster. Some (Context cluster)) ?cl"
    if reach: "reachable p"
  proof (rule nth_equalityI)
    show "length (map (map_option Context) ?res) = length (map (\<lambda>cluster. Some (Context cluster)) ?cl)"
      by (simp add: len)
  next
    fix i assume "i < length (map (map_option Context) ?res)"
    then have i: "i < length ?cl" by (simp add: len)
    from slots [OF i] obtain pre post where
      slot: "?res ! i = Some (case fst (GetClusterStatus env (clks i) ctx
                        (provider (runGoroutines env clks ctx ?cl pre ?sh)) (Context (?cl ! i))) of
                      Inl err \<Rightarrow> errorStatus (Context (?cl ! i)) err
                    | Inr status \<Rightarrow> status)" by blast
    let ?q = "provider (runGoroutines env clks ctx ?cl pre ?sh)"
    have "reachable ?q" using reach by (intro runGoroutines_reachable) simp
    then have inv: "provider_inv ?q" by (rule reachable_inv)
    obtain r q' evs where run: "GetClusterStatus env (clks i) ctx ?q (Context (?cl ! i)) = (r, q', evs)"
      by (cases "GetClusterStatus env (clks i) ctx ?q (Context (?cl ! i))") auto
    have "Context (case r of Inl err \<Rightarrow> errorStatus (Context (?cl ! i)) err | Inr status \<Rightarrow> status)
            = Context (?cl ! i)"
    proof (cases r)
      case (Inl e) then show ?thesis by (simp add: errorStatus_def)
    next
      case (Inr st)
      with run GetClusterStatus_context [OF inv, of env "clks i" ctx "Context (?cl ! i)" st q' evs]
      show ?thesis by simp
    qed
    with slot run i len
    show "map (map_option Context) ?res ! i = map (\<lambda>cluster. Some (Context cluster)) ?cl ! i"
      by simp
  qed
  from len slots err ctxs show ?thesis by blast
qed


theorem all_statuses_by_position_witness:
  "distinct [1, 0 :: nat]
   \<and> set [1, 0 :: nat] = {..<length (GetClusters [''b'', ''a''] sampleProvider)}
   \<and> length (fst (GetAllClusterStatuses downEnv sampleClocks None [''b'', ''a''] [1, 0] sampleProvider)) = 2
   \<and> map (map_option Context)
        (fst (GetAllClusterStatuses downEnv sampleClocks None [''b'', ''a''] [1, 0] sampleProvider))
      = [Some ''b'', Some ''a'']
   \<and> fst (GetAllClusterStatuses healthyEnv sampleClocks None [''x''] [0] strayProvider) ! 0
      = Some (errorStatus ''ghost'' (''cluster context '' @ Quote ''ghost'' @ '' not found''))"
proof -
  have d: "distinct [1, 0 :: nat]" by simp
  have s: "set [1, 0 :: nat] = {..<length (GetClusters [''b'', ''a''] sampleProvider)}"
    by (auto simp: GetClusters_sample)
  note A = all_statuses_by_position [OF d s, of downEnv sampleClocks None "[]" "[]"]
  from A reachable_sample
  have a1: "length (fst (GetAllClusterStatuses downEnv sampleClocks None [''b'', ''a''] [1, 0] sampleProvider)) = 2"
    and a2: "map (map_option Context)
        (fst (GetAllClusterStatuses downEnv sampleClocks None [''b'', ''a''] [1, 0] sampleProvider))
      = [Some ''b'', Some ''a'']"
    by (simp_all add: GetClusters_sample)
  have d0: "distinct [0 :: nat]" by simp
  have s0: "set [0 :: nat] = {..<length (GetClusters [''x''] strayProvider)}"
    by (auto simp: GetClusters_stray)
  note B = all_statuses_by_position [OF d0 s0, of healthyEnv sampleClocks None "[]" "[]"]
  then have "\<exists>pre post. [0 :: nat] = pre @ 0 # post
        \<and> fst (GetAllClusterStatuses healthyEnv sampleClocks None [''x''] [0] strayProvider) ! 0
            = Some (case fst (GetClusterStatus healthyEnv (sampleClocks 0) None
                        (provider (runGoroutines healthyEnv sampleClocks None (GetClusters [''x''] strayProvider) pre
                           \<lparr>provider = strayProvider,
                            statuses = replicate (length (GetClusters [''x''] strayProvider)) None,
                            trace = []\<rparr>))
                        (Context (GetClusters [''x''] strayProvider ! 0))) of
                      Inl err \<Rightarrow> errorStatus (Context (GetClusters [''x''] strayProvider ! 0)) err
                    | Inr status \<Rightarrow> status)"
    by (simp add: GetClusters_stray)
  then obtain pre post where pp: "[0 :: nat] = pre @ 0 # post"
    and slot: "fst (GetAllClusterStatuses healthyEnv sampleClocks None [''x''] [0] strayProvider) ! 0
            = Some (case fst (GetClusterStatus healthyEnv (sampleClocks 0) None
                        (provider (runGoroutines healthyEnv sampleClocks None (GetClusters [''x''] strayProvider) pre
                           \<lparr>provider = strayProvider,
                            statuses = replicate (length (GetClusters [''x''] strayProvider)) None,
                            trace = []\<rparr>))
                        (Context (GetClusters [''x''] strayProvider ! 0))) of
                      Inl err \<Rightarrow> errorStatus (Context (GetClusters [''x''] strayProvider ! 0)) err
                    | Inr status \<Rightarrow> status)"
    by blast
  from pp have "pre = []" by (simp add: Cons_eq_append_conv)
  with slot have b: "fst (GetAllClusterStatuses healthyEnv sampleClocks None [''x''] [0] strayProvider) ! 0
      = Some (errorStatus ''ghost'' (''cluster context '' @ Quote ''ghost'' @ '' not found''))"
    by (simp add: GetClusters_stray runGoroutines_Nil stray_unknown)
  from d s a1 a2 b show ?thesis by (simp only: simp_thms)
qed


subsection \<open>Deadlines of a probe\<close>

text \<open>
  C7. The claim asks for an overall probe deadline of 30 s and a strictly shorter 10 s
  deadline that bounds the version discovery call. The code does not do this. For a
  probe of context \<open>a\<close> with a caller's context without deadline (what every caller
  passes) and the query context created at instant 1 ns: the version call is handed no
  deadline at all, the context derived for it being dropped; the node, namespace and pod
  list calls are handed a deadline 10 s after the creation of the query context, where
  \<open>DefaultAPITimeout\<close> would give 30 s; and the deadline of the context derived for the
  version call is that same instant, not an earlier one.
\<close>

theorem version_call_has_no_deadline:
  "snd (snd (GetClusterStatus healthyEnv sampleClock None sampleProvider ''a''))
     = [CallCreateClientset ''a'', CallServerVersion ''a'',
        CallListNodes ''a'' (Some 10000000001),
        CallListNamespaces ''a'' (Some 10000000001),
        CallListPods ''a'' (Some 10000000001)]
   \<and> map deadlineOf (snd (snd (GetClusterStatus healthyEnv sampleClock None sampleProvider ''a'')))
     = [None, None, Some 10000000001, Some 10000000001, Some 10000000001]
   \<and> tQuery sampleClock + DefaultAPITimeout = 30000000001
   \<and> WithTimeout (WithTimeout None (tQuery sampleClock) (10 * second)) (tDiscovery sampleClock)
        DiscoveryTimeout = WithTimeout None (tQuery sampleClock) (10 * second)
   \<and> WithTimeout None (tQuery sampleClock) (10 * second) = Some 10000000001"
proof -
  obtain items where items: "ListNodes (healthyEnv ''a'') = Inr items"
    using sample_nodes_listed(2) by blast
  have dl: "WithTimeout None (tQuery sampleClock) (10 * second) = Some 10000000001"
    by (simp add: WithTimeout_def sampleClock_def second_def)
  have run: "snd (snd (GetClusterStatus healthyEnv sampleClock None sampleProvider ''a'')) =
      [CallCreateClientset ''a'', CallServerVersion ''a'',
       CallListNodes ''a'' (WithTimeout None (tQuery sampleClock) (10 * second)),
       CallListNamespaces ''a'' (WithTimeout None (tQuery sampleClock) (10 * second)),
       CallListPods ''a'' (WithTimeout None (tQuery sampleClock) (10 * second))]"
    using GetClusterStatus_nodes_listed
      [where env = healthyEnv and c = "''a''" and ctx = None,
       OF miss_sample clusters_sample_a sample_backend_simps(10,11,12) items]
    by simp
  have nested: "WithTimeout (Some 10000000001) (tDiscovery sampleClock) DiscoveryTimeout
      = Some 10000000001"
    by (simp add: WithTimeout_def sampleClock_def second_def DiscoveryTimeout_def)
  have const: "tQuery sampleClock + DefaultAPITimeout = 30000000001"
    by (simp add: sampleClock_def second_def DefaultAPITimeout_def)
  show ?thesis
    unfolding run dl by (simp add: nested const)
qed

subsection \<open>Health analysis\<close>

lemma processReachableCluster_fields:
  "reachableCount (processReachableCluster st s) = reachableCount s + 1"
  "healthyCount (processReachableCluster st s)
     = healthyCount s + (if \<not> hasNodeIssue st \<and> \<not> hasPodIssue st \<and> NodeCount st > 0 then 1 else 0)"
  "issues (processReachableCluster st s)
     = issues s @ (if hasNodeIssue st then [nodeIssue st] else [])
        @ (if hasPodIssue st then [podIssue st (wrap64 (PodCount st - HealthyPods st))] else [])"
  by (simp_all add: processReachableCluster_def hasNodeIssue_def hasPodIssue_def Let_def)

lemma analyzeLoop_fields:
  "reachableCount (analyzeLoop s sts) = reachableCount s + int (length (filter IsReachable sts))"
  "healthyCount (analyzeLoop s sts)
     = healthyCount s + int (length (filter (\<lambda>st. IsReachable st \<and> \<not> (HealthyNodes st < NodeCount st \<and> NodeCount st > 0)
                            \<and> \<not> (HealthyPods st < PodCount st \<and> PodCount st > 0)
                            \<and> NodeCount st > 0) sts))"
  "issues (analyzeLoop s sts) = issues s @ concat (map issuesOf sts)"
  by (induction sts arbitrary: s)
     (auto simp add: processReachableCluster_fields issuesOf_def hasNodeIssue_def hasPodIssue_def)

text \<open>
  C8. For the four statuses of the scenario (2/2 nodes and 5/5 pods healthy; 1/2 nodes
  healthy; 3/3 nodes and 4/5 pods healthy; unreachable) the analysis counts 3 reachable
  clusters, 1 fully healthy cluster and 1 unhealthy pod, and lists exactly three issues in
  input order: the node issue, the pod issue, the unreachable issue. In general the issue
  list is the concatenation of the issues of each status in input order, and a status is
  counted fully healthy exactly when it is reachable, has neither a node issue nor a pod
  issue, and has a positive node count.
\<close>

theorem health_analysis_scenario:
  "analyzeClusterHealth
     [statusOf c1 True 2 2 5 5 [], statusOf c2 True 2 1 0 0 [], statusOf c3 True 3 3 5 4 [],
      statusOf c4 False 0 0 0 0 e]
    = \<lparr>reachableCount = 3, healthyCount = 1, totalUnhealthyPods = 1,
       issues = [warnMark @ ''  '' @ c2 @ '': 1/2 nodes healthy'',
                 warnMark @ ''  '' @ c3 @ '': 1/5 pods unhealthy'',
                 crossMark @ '' '' @ c4 @ '': UNREACHABLE - '' @ e]\<rparr>
   \<and> issues (analyzeClusterHealth sts) = concat (map issuesOf sts)
   \<and> reachableCount (analyzeClusterHealth sts) = int (length (filter IsReachable sts))
   \<and> healthyCount (analyzeClusterHealth sts)
       = int (length (filter (\<lambda>st. IsReachable st \<and> \<not> (HealthyNodes st < NodeCount st \<and> NodeCount st > 0)
                            \<and> \<not> (HealthyPods st < PodCount st \<and> PodCount st > 0)
                            \<and> NodeCount st > 0) sts))"
proof -
  have scenario: "analyzeClusterHealth
     [statusOf c1 True 2 2 5 5 [], statusOf c2 True 2 1 0 0 [], statusOf c3 True 3 3 5 4 [],
      statusOf c4 False 0 0 0 0 e]
    = \<lparr>reachableCount = 3, healthyCount = 1, totalUnhealthyPods = 1,
       issues = [warnMark @ ''  '' @ c2 @ '': 1/2 nodes healthy'',
                 warnMark @ ''  '' @ c3 @ '': 1/5 pods unhealthy'',
                 crossMark @ '' '' @ c4 @ '': UNREACHABLE - '' @ e]\<rparr>"
    by (simp add: analyzeClusterHealth_def processReachableCluster_def statusOf_def
          nodeIssue_def podIssue_def unreachableIssue_def formatInt_def natDigits.simps
          wrap64_def Let_def)
  have general: "issues (analyzeClusterHealth sts) = concat (map issuesOf sts)"
    "reachableCount (analyzeClusterHealth sts) = int (length (filter IsReachable sts))"
    "healthyCount (analyzeClusterHealth sts)
       = int (length (filter (\<lambda>st. IsReachable st \<and> \<not> (HealthyNodes st < NodeCount st \<and> NodeCount st > 0)
                            \<and> \<not> (HealthyPods st < PodCount st \<and> PodCount st > 0)
                            \<and> NodeCount st > 0) sts))"
    by (simp_all add: analyzeClusterHealth_def analyzeLoop_fields)
  with scenario show ?thesis by (simp only: simp_thms)
qed

end
